theory Spec2Isabelle
  imports Main "HOL-Library.Sublist"
begin

section \<open>Values decoded from a line\<close>

text \<open>
  The script \<^verbatim>\<open>get_sonar_data_unified.py\<close> reads a file of JSON lines and writes the
  records of tracked zones to a document store. A decoded line is any JSON value: Python
  gives a \<^verbatim>\<open>dict\<close> for an object, but also a list, a string, a number, a boolean or
  \<^verbatim>\<open>None\<close>, and the script never checks which. A float is kept as mantissa and
  binary exponent (the value \<open>m * 2 ^ e\<close>), with the three non-finite values that
  \<^verbatim>\<open>json.loads\<close> accepts. A \<^verbatim>\<open>dict\<close> is an association list read with
  \<open>map_of\<close>; strings are byte strings.

  Two functions that the script calls belong to the interpreter and its library, not to
  the repository: \<^verbatim>\<open>json.loads\<close> and the built-in \<^verbatim>\<open>int\<close>. What they return
  depends on the interpreter (its version, its tables of Unicode digits and white space),
  so the functions below take both as parameters: \<open>loads line\<close> is what
  \<^verbatim>\<open>json.loads(line)\<close> returns or the exception it raises, and \<open>py_int v\<close> is
  what \<^verbatim>\<open>int(v)\<close> returns or the exception it raises. Every theorem holds for all
  such functions.
\<close>

datatype pyfloat = Finite int int | NaN | PosInf | NegInf

datatype json =
    JNull
  | JBool bool
  | JInt int
  | JFloat pyfloat
  | JString string
  | JArray "json list"
  | JObject "(string \<times> json) list"

text \<open>The exception classes that the handlers of the script tell apart.\<close>

datatype error =
    ValueError
  | KeyError
  | TypeError
  | AttributeError
  | OverflowError
  | RecursionError

text \<open>
  \<^verbatim>\<open>data[key]\<close>: a missing key of a \<^verbatim>\<open>dict\<close> raises KeyError; every other decoded
  value raises TypeError for a string subscript.
\<close>

fun getitem :: "json \<Rightarrow> string \<Rightarrow> error + json" where
  "getitem (JObject kvs) k = (case map_of kvs k of None \<Rightarrow> Inl KeyError | Some v \<Rightarrow> Inr v)"
| "getitem _ k = Inl TypeError"

text \<open>\<^verbatim>\<open>"..." + x\<close>: concatenation with something that is not a \<^verbatim>\<open>str\<close> raises TypeError.\<close>

fun str_add :: "string \<Rightarrow> json \<Rightarrow> error + string" where
  "str_add s (JString t) = Inr (s @ t)"
| "str_add s _ = Inl TypeError"

section \<open>Zone classification\<close>

text \<open>\<^verbatim>\<open>s.endswith(suf)\<close>, computed on the last \<open>length suf\<close> characters.\<close>

definition endswith :: "string \<Rightarrow> string \<Rightarrow> bool" where
  "endswith s suf = (length suf \<le> length s \<and> drop (length s - length suf) s = suf)"

text \<open>The \<^verbatim>\<open>for zone in zones\<close> loop of \<^verbatim>\<open>find_zone\<close>, on a domain that is a string.\<close>

fun find_zone_loop :: "string \<Rightarrow> string list \<Rightarrow> string" where
  "find_zone_loop domain [] = ''''"
| "find_zone_loop domain (zone # zones) =
     (if endswith domain (''.'' @ zone) \<or> domain = zone then zone
      else find_zone_loop domain zones)"

text \<open>
  \<^verbatim>\<open>find_zone(domain, zones)\<close>. \<^verbatim>\<open>None\<close> returns the empty string at once. A value that
  is neither \<^verbatim>\<open>None\<close> nor a string has no \<^verbatim>\<open>endswith\<close>: the first iteration raises
  AttributeError, and with no zone at all the loop body never runs.
\<close>

fun find_zone :: "json \<Rightarrow> string list \<Rightarrow> error + string" where
  "find_zone JNull zones = Inr ''''"
| "find_zone (JString domain) zones = Inr (find_zone_loop domain zones)"
| "find_zone _ [] = Inr ''''"
| "find_zone _ (zone # zones) = Inl AttributeError"

section \<open>The stores and the world of a run\<close>

text \<open>
  A clock reading is an integer. Every \<^verbatim>\<open>datetime.now()\<close> and every
  \<^verbatim>\<open>$currentDate\<close> of the store takes the next reading of a sequence \<open>now\<close> that
  the run is given; the world counts the readings taken so far. Nothing is assumed about
  the sequence. The world also holds the documents of the collection written to and the
  lines printed.
\<close>

type_synonym time = int

record entry =
  fqdn :: json
  zone :: string
  status :: string
  sonar_timestamp :: int
  created :: time

record dns_entry = entry +
  rtype :: json
  rvalue :: json

record rdns_entry = entry +
  ip :: json
  updated :: time

record 'e world =
  store :: "'e list"
  out :: "string list"
  clock :: nat

definition print :: "string \<Rightarrow> 'e world \<Rightarrow> 'e world" where
  "print s w = w\<lparr>out := out w @ [s]\<rparr>"

text \<open>
  Modelled from the spec: \<^verbatim>\<open>DNSManager.insert_record\<close> of \<^verbatim>\<open>libs3\<close> is not among
  the sources. The spec gives the store operation of forward entries as
  \<^verbatim>\<open>insert(collection, document)\<close>, which always adds the document, with no uniqueness
  constraint and no look-up of an existing entry.
\<close>

definition insert_record :: "dns_entry \<Rightarrow> string \<Rightarrow> dns_entry list \<Rightarrow> dns_entry list" where
  "insert_record insert_json source_name docs = docs @ [insert_json]"

text \<open>
  The collection of reverse entries is a collection of the document store's client
  library. \<^verbatim>\<open>find({'ip': v})\<close> selects, for a string \<open>v\<close>, the documents whose
  \<^verbatim>\<open>ip\<close> is that string or an array holding it; the same rule is applied here to the
  other values. \<^verbatim>\<open>insert\<close> adds a document at the end. \<^verbatim>\<open>update\<close> without
  \<^verbatim>\<open>multi\<close> changes the first selected document only.
\<close>

definition ip_selects :: "json \<Rightarrow> json \<Rightarrow> bool" where
  "ip_selects q v = (v = q \<or> (case v of JArray xs \<Rightarrow> q \<in> set xs | _ \<Rightarrow> False))"

definition find_ip :: "json \<Rightarrow> rdns_entry list \<Rightarrow> rdns_entry list" where
  "find_ip q docs = filter (\<lambda>d. ip_selects q (ip d)) docs"

definition insert_doc :: "rdns_entry \<Rightarrow> rdns_entry list \<Rightarrow> rdns_entry list" where
  "insert_doc insert_json docs = docs @ [insert_json]"

fun update_one :: "json \<Rightarrow> (rdns_entry \<Rightarrow> rdns_entry) \<Rightarrow> rdns_entry list \<Rightarrow> rdns_entry list" where
  "update_one q f [] = []"
| "update_one q f (d # docs) =
     (if ip_selects q (ip d) then f d # docs else d # update_one q f docs)"

section \<open>Forward records: \<^verbatim>\<open>update_dns\<close>\<close>

text \<open>
  The \<^verbatim>\<open>try\<close> block of \<^verbatim>\<open>update_dns\<close>: \<^verbatim>\<open>value\<close>, \<^verbatim>\<open>domain\<close> and \<^verbatim>\<open>zone\<close>,
  or the first exception raised.
\<close>

definition dns_try :: "json \<Rightarrow> string list \<Rightarrow> error + (json \<times> json \<times> string)" where
  "dns_try data zones =
     (case getitem data ''value'' of
        Inl e \<Rightarrow> Inl e
      | Inr value \<Rightarrow>
          (case getitem data ''name'' of
             Inl e \<Rightarrow> Inl e
           | Inr domain \<Rightarrow>
               (case find_zone domain zones of
                  Inl e \<Rightarrow> Inl e
                | Inr zn \<Rightarrow> Inr (value, domain, zn))))"

text \<open>
  The statements after the \<^verbatim>\<open>try\<close> block: the time stamp is read outside any handler,
  and converted only when an entry is built.
\<close>

definition dns_insert ::
  "(json \<Rightarrow> error + int) \<Rightarrow> (nat \<Rightarrow> time) \<Rightarrow> json \<Rightarrow> json \<Rightarrow> json \<Rightarrow> json \<Rightarrow> string \<Rightarrow> dns_entry world
     \<Rightarrow> error option \<times> dns_entry world" where
  "dns_insert py_int now data dtype value domain zn w =
     (case getitem data ''timestamp'' of
        Inl e \<Rightarrow> (Some e, w)
      | Inr timestamp \<Rightarrow>
          if zn \<noteq> '''' \<and> value \<noteq> JString '''' then
            (case str_add ''Domain matches! '' domain of
               Inl e \<Rightarrow> (Some e, w)
             | Inr msg \<Rightarrow>
                 let w1 = print (msg @ '' Zone: '' @ zn) w in
                 (case py_int timestamp of
                    Inl e \<Rightarrow> (Some e, w1)
                  | Inr n \<Rightarrow>
                      let insert_json =
                            \<lparr>fqdn = domain, zone = zn, status = ''unknown'',
                             sonar_timestamp = n, created = now (clock w1),
                             rtype = dtype, rvalue = value\<rparr>
                      in (None, w1\<lparr>store := insert_record insert_json ''sonar_dns'' (store w1),
                                   clock := clock w1 + 1\<rparr>)))
          else (None, w))"

text \<open>
  One iteration of the loop over the file. The first component of the result is the
  exception that leaves the function, if any; the world is returned in both cases, since
  what was written before an exception stays written.
\<close>

definition dns_line ::
  "(string \<Rightarrow> error + json) \<Rightarrow> (json \<Rightarrow> error + int) \<Rightarrow> (nat \<Rightarrow> time) \<Rightarrow> string list \<Rightarrow> string \<Rightarrow> dns_entry world
     \<Rightarrow> error option \<times> dns_entry world" where
  "dns_line loads py_int now zones line w =
     (case loads line of
        Inl e \<Rightarrow> if e = ValueError then (None, w) else (Some e, w)
      | Inr data \<Rightarrow>
          (case getitem data ''type'' of
             Inl e \<Rightarrow> (Some e, w)
           | Inr dtype \<Rightarrow>
               (case dns_try data zones of
                  Inl e \<Rightarrow>
                    if e = KeyError then
                      dns_insert py_int now data dtype (JString '''') (JString '''') ''''
                        (print (''Error with line: '' @ line) w)
                    else (Some e, w)
                | Inr (value, domain, zn) \<Rightarrow> dns_insert py_int now data dtype value domain zn w)))"

fun update_dns ::
  "(string \<Rightarrow> error + json) \<Rightarrow> (json \<Rightarrow> error + int) \<Rightarrow> (nat \<Rightarrow> time) \<Rightarrow> string list \<Rightarrow> string list \<Rightarrow> dns_entry world
     \<Rightarrow> error option \<times> dns_entry world" where
  "update_dns loads py_int now zones [] w = (None, w)"
| "update_dns loads py_int now zones (line # dns_f) w =
     (case dns_line loads py_int now zones line w of
        (None, w') \<Rightarrow> update_dns loads py_int now zones dns_f w'
      | (Some e, w') \<Rightarrow> (Some e, w'))"

section \<open>Reverse records: \<^verbatim>\<open>update_rdns\<close>\<close>

definition rdns_try :: "json \<Rightarrow> string list \<Rightarrow> error + (json \<times> json \<times> string)" where
  "rdns_try data zones =
     (case getitem data ''value'' of
        Inl e \<Rightarrow> Inl e
      | Inr domain \<Rightarrow>
          (case getitem data ''name'' of
             Inl e \<Rightarrow> Inl e
           | Inr ip_addr \<Rightarrow>
               (case find_zone domain zones of
                  Inl e \<Rightarrow> Inl e
                | Inr zn \<Rightarrow> Inr (domain, ip_addr, zn))))"

definition rdns_upsert ::
  "(json \<Rightarrow> error + int) \<Rightarrow> (nat \<Rightarrow> time) \<Rightarrow> json \<Rightarrow> json \<Rightarrow> json \<Rightarrow> string \<Rightarrow> rdns_entry world
     \<Rightarrow> error option \<times> rdns_entry world" where
  "rdns_upsert py_int now data domain ip_addr zn w =
     (case getitem data ''timestamp'' of
        Inl e \<Rightarrow> (Some e, w)
      | Inr timestamp \<Rightarrow>
          if zn \<noteq> '''' \<and> domain \<noteq> JString '''' then
            (case str_add ''Domain matches! '' domain of
               Inl e \<Rightarrow> (Some e, w)
             | Inr msg \<Rightarrow>
                 let w1 = print (msg @ '' Zone: '' @ zn) w;
                     result = length (find_ip ip_addr (store w1))
                 in
                 if result = 0 then
                   (case py_int timestamp of
                      Inl e \<Rightarrow> (Some e, w1)
                    | Inr n \<Rightarrow>
                        let insert_json =
                              \<lparr>fqdn = domain, zone = zn, status = ''unknown'',
                               sonar_timestamp = n, created = now (clock w1),
                               ip = ip_addr, updated = now (clock w1 + 1)\<rparr>
                        in (None, w1\<lparr>store := insert_doc insert_json (store w1),
                                     clock := clock w1 + 2\<rparr>))
                 else
                   (None, w1\<lparr>store := update_one ip_addr
                                         (\<lambda>d. d\<lparr>fqdn := domain, updated := now (clock w1)\<rparr>)
                                         (store w1),
                              clock := clock w1 + 1\<rparr>))
          else (None, w))"

definition rdns_line ::
  "(string \<Rightarrow> error + json) \<Rightarrow> (json \<Rightarrow> error + int) \<Rightarrow> (nat \<Rightarrow> time) \<Rightarrow> string list \<Rightarrow> string \<Rightarrow> rdns_entry world
     \<Rightarrow> error option \<times> rdns_entry world" where
  "rdns_line loads py_int now zones line w =
     (case loads line of
        Inl e \<Rightarrow> if e = ValueError then (None, w) else (Some e, w)
      | Inr data \<Rightarrow>
          (case rdns_try data zones of
             Inl e \<Rightarrow>
               if e = KeyError then rdns_upsert py_int now data (JString '''') (JString '''') '''' w
               else (Some e, w)
           | Inr (domain, ip_addr, zn) \<Rightarrow> rdns_upsert py_int now data domain ip_addr zn w))"

fun update_rdns ::
  "(string \<Rightarrow> error + json) \<Rightarrow> (json \<Rightarrow> error + int) \<Rightarrow> (nat \<Rightarrow> time) \<Rightarrow> string list \<Rightarrow> string list \<Rightarrow> rdns_entry world
     \<Rightarrow> error option \<times> rdns_entry world" where
  "update_rdns loads py_int now zones [] w = (None, w)"
| "update_rdns loads py_int now zones (line # read_f) w =
     (case rdns_line loads py_int now zones line w of
        (None, w') \<Rightarrow> update_rdns loads py_int now zones read_f w'
      | (Some e, w') \<Rightarrow> (Some e, w'))"

section \<open>Properties to be checked, and sample input\<close>

text \<open>
  A domain is in a zone when it is the zone or ends with a dot followed by the zone. This
  is the property of strings, stated with the suffix order and not with the computation of
  \<open>endswith\<close>.
\<close>

definition in_zone :: "string \<Rightarrow> string \<Rightarrow> bool" where
  "in_zone d z = (d = z \<or> suffix (''.'' @ z) d)"

definition fqdn_in_zone :: "'a entry_scheme \<Rightarrow> bool" where
  "fqdn_in_zone e = (case fqdn e of JString d \<Rightarrow> in_zone d (zone e) | _ \<Rightarrow> False)"

text \<open>
  Lines of a sample file with what \<^verbatim>\<open>json.loads\<close> returns for each; any other text
  counts as undecodable. The clock \<open>ticks\<close> advances by one at every reading.
\<close>

definition sample_zones :: "string list" where
  "sample_zones = [''example.com'']"

definition fwd_ok :: string where
  \<open>fwd_ok = ''{"type":"a","name":"foo.example.com","value":"10.0.0.1","timestamp":100}''\<close>

definition fwd_no_type :: string where
  \<open>fwd_no_type = ''{"name":"foo.example.com","value":"10.0.0.1","timestamp":100}''\<close>

definition fwd_no_value :: string where
  \<open>fwd_no_value = ''{"type":"a","name":"foo.example.com","timestamp":100}''\<close>

definition fwd_bad_ts :: string where
  \<open>fwd_bad_ts = ''{"type":"a","name":"foo.example.com","value":"10.0.0.1","timestamp":"abc"}''\<close>

definition fwd_other_bad_ts :: string where
  \<open>fwd_other_bad_ts = ''{"type":"a","name":"foo.notexample.com","value":"10.0.0.1","timestamp":"abc"}''\<close>

definition rev_bar :: string where
  \<open>rev_bar = ''{"name":"10.0.0.1","value":"bar.example.com","timestamp":200}''\<close>

definition rev_baz :: string where
  \<open>rev_baz = ''{"name":"10.0.0.1","value":"baz.example.com","timestamp":300}''\<close>

definition rev_no_name :: string where
  \<open>rev_no_name = ''{"value":"bar.example.com","timestamp":200}''\<close>

definition rev_bad_ts :: string where
  \<open>rev_bad_ts = ''{"name":"10.0.0.1","value":"bar.example.com","timestamp":"abc"}''\<close>

definition rev_empty_ip :: string where
  \<open>rev_empty_ip = ''{"name":"","value":"bar.example.com","timestamp":200}''\<close>

definition rev_array_ip :: string where
  \<open>rev_array_ip = ''{"name":["10.0.0.1"],"value":"baz.example.com","timestamp":300}''\<close>

definition garbage :: string where
  \<open>garbage = ''{"name": "foo.example.com", "value''\<close>

definition sample_table :: "(string \<times> json) list" where
  "sample_table =
    [(fwd_ok, JObject [(''type'', JString ''a''), (''name'', JString ''foo.example.com''),
                       (''value'', JString ''10.0.0.1''), (''timestamp'', JInt 100)]),
     (fwd_no_type, JObject [(''name'', JString ''foo.example.com''),
                            (''value'', JString ''10.0.0.1''), (''timestamp'', JInt 100)]),
     (fwd_no_value, JObject [(''type'', JString ''a''), (''name'', JString ''foo.example.com''),
                             (''timestamp'', JInt 100)]),
     (fwd_bad_ts, JObject [(''type'', JString ''a''), (''name'', JString ''foo.example.com''),
                           (''value'', JString ''10.0.0.1''), (''timestamp'', JString ''abc'')]),
     (fwd_other_bad_ts, JObject [(''type'', JString ''a''), (''name'', JString ''foo.notexample.com''),
                                 (''value'', JString ''10.0.0.1''), (''timestamp'', JString ''abc'')]),
     (rev_bar, JObject [(''name'', JString ''10.0.0.1''), (''value'', JString ''bar.example.com''),
                        (''timestamp'', JInt 200)]),
     (rev_baz, JObject [(''name'', JString ''10.0.0.1''), (''value'', JString ''baz.example.com''),
                        (''timestamp'', JInt 300)]),
     (rev_no_name, JObject [(''value'', JString ''bar.example.com''), (''timestamp'', JInt 200)]),
     (rev_bad_ts, JObject [(''name'', JString ''10.0.0.1''), (''value'', JString ''bar.example.com''),
                           (''timestamp'', JString ''abc'')]),
     (rev_empty_ip, JObject [(''name'', JString ''''), (''value'', JString ''bar.example.com''),
                             (''timestamp'', JInt 200)]),
     (rev_array_ip, JObject [(''name'', JArray [JString ''10.0.0.1'']),
                             (''value'', JString ''baz.example.com''), (''timestamp'', JInt 300)])]"

definition sample_loads :: "string \<Rightarrow> error + json" where
  "sample_loads line = (case map_of sample_table line of None \<Rightarrow> Inl ValueError | Some data \<Rightarrow> Inr data)"

text \<open>
  The time stamps of the sample lines are JSON integers, which \<^verbatim>\<open>int\<close> returns as
  they are, and the string \<open>abc\<close>, for which it raises ValueError. The sample's
  conversion answers for these; any other value counts as not convertible.
\<close>

definition sample_int :: "json \<Rightarrow> error + int" where
  "sample_int timestamp = (case timestamp of JInt n \<Rightarrow> Inr n | _ \<Rightarrow> Inl ValueError)"

definition ticks :: "nat \<Rightarrow> time" where
  "ticks i = int i"

definition empty_world :: "'e world" where
  "empty_world = \<lparr>store = [], out = [], clock = 0\<rparr>"

text \<open>A store that already holds the reverse entry of 10.0.0.1, written at time 7.\<close>

definition bar_entry :: rdns_entry where
  "bar_entry = \<lparr>fqdn = JString ''bar.example.com'', zone = ''example.com'', status = ''unknown'',
                 sonar_timestamp = 200, created = 7, ip = JString ''10.0.0.1'', updated = 7\<rparr>"

definition bar_world :: "rdns_entry world" where
  "bar_world = \<lparr>store = [bar_entry], out = [], clock = 0\<rparr>"

text \<open>
  A store that holds, besides, an entry under the empty address, written at time 3.
\<close>

definition anon_entry :: rdns_entry where
  "anon_entry = \<lparr>fqdn = JString ''old.example.com'', zone = ''example.com'', status = ''unknown'',
                  sonar_timestamp = 50, created = 3, ip = JString '''', updated = 3\<rparr>"

definition anon_world :: "rdns_entry world" where
  "anon_world = \<lparr>store = [bar_entry, anon_entry], out = [], clock = 0\<rparr>"

section \<open>Facts about the helpers\<close>

lemmas sample_defs = sample_loads_def sample_int_def sample_table_def sample_zones_def fwd_ok_def
  fwd_no_type_def fwd_no_value_def fwd_bad_ts_def fwd_other_bad_ts_def rev_bar_def rev_baz_def
  rev_no_name_def rev_bad_ts_def rev_empty_ip_def rev_array_ip_def garbage_def ticks_def
  empty_world_def bar_entry_def bar_world_def

lemmas run_defs = dns_line_def dns_try_def dns_insert_def rdns_line_def rdns_try_def
  rdns_upsert_def print_def insert_record_def insert_doc_def find_ip_def ip_selects_def
  endswith_def Let_def

lemma endswith_suffix: "endswith s suf \<longleftrightarrow> suffix suf s"
proof
  assume "endswith s suf"
  then have "s = take (length s - length suf) s @ suf"
    unfolding endswith_def by (metis append_take_drop_id)
  then show "suffix suf s"
    by (rule suffixI)
next
  assume "suffix suf s"
  then obtain pre where "s = pre @ suf"
    by (auto simp: suffix_def)
  then show "endswith s suf"
    by (simp add: endswith_def)
qed

lemma find_zone_loop_none:
  "(\<forall>z\<in>set zones. \<not> in_zone d z) \<Longrightarrow> find_zone_loop d zones = ''''"
  by (induction zones) (auto simp: in_zone_def endswith_suffix)

lemma find_zone_loop_first:
  "in_zone d z \<Longrightarrow> (\<forall>y\<in>set pre. \<not> in_zone d y) \<Longrightarrow> find_zone_loop d (pre @ z # post) = z"
  by (induction pre) (auto simp: in_zone_def endswith_suffix)

lemma find_zone_loop_sound:
  "find_zone_loop d zones \<noteq> '''' \<Longrightarrow>
     find_zone_loop d zones \<in> set zones \<and> in_zone d (find_zone_loop d zones)"
  by (induction zones) (auto simp: in_zone_def endswith_suffix)

lemma find_zone_loop_empty: "find_zone_loop '''' zones = ''''"
  by (induction zones) (simp_all add: endswith_def)

lemma find_zone_string:
  "find_zone domain zones = Inr z \<Longrightarrow> z \<noteq> '''' \<Longrightarrow>
     \<exists>d. domain = JString d \<and> z = find_zone_loop d zones"
  by (cases domain; cases zones) auto

section \<open>Classification of a domain\<close>

text \<open>
  C6. For every domain \<open>d\<close> and every list of zones, \<open>find_zone\<close> returns the first zone
  of the list, in its order, that \<open>d\<close> equals or ends with after a dot; it returns the empty
  string, its answer for no match, when there is no such zone. So
  \<open>foo.notexample.com\<close> is not in the zone \<open>example.com\<close>. An absent domain
  (\<^verbatim>\<open>None\<close>) gives no match and never an error.
\<close>

theorem find_zone_first_match:
  "find_zone JNull zones = Inr ''''
   \<and> ((\<forall>z\<in>set zones. \<not> in_zone d z) \<longrightarrow> find_zone (JString d) zones = Inr '''')
   \<and> (\<forall>pre z post. zones = pre @ z # post \<and> in_zone d z \<and> (\<forall>y\<in>set pre. \<not> in_zone d y)
         \<longrightarrow> find_zone (JString d) zones = Inr z)
   \<and> find_zone (JString ''foo.notexample.com'') [''example.com''] = Inr ''''"
proof (intro conjI allI impI)
  show "find_zone JNull zones = Inr ''''"
    by simp
next
  assume "\<forall>z\<in>set zones. \<not> in_zone d z"
  then show "find_zone (JString d) zones = Inr ''''"
    by (simp add: find_zone_loop_none)
next
  fix pre z post
  assume "zones = pre @ z # post \<and> in_zone d z \<and> (\<forall>y\<in>set pre. \<not> in_zone d y)"
  then show "find_zone (JString d) zones = Inr z"
    by (simp add: find_zone_loop_first)
next
  show "find_zone (JString ''foo.notexample.com'') [''example.com''] = Inr ''''"
    by (simp add: endswith_def)
qed

theorem find_zone_first_match_witness:
  "in_zone ''a.example.com'' ''example.com''
   \<and> \<not> in_zone ''a.example.com'' ''other.org''
   \<and> \<not> in_zone ''a.example.com'' ''example.net''
   \<and> find_zone (JString ''a.example.com'') [''other.org'', ''example.com'', ''com'']
       = Inr ''example.com''
   \<and> find_zone (JString ''a.example.com'') [''other.org'', ''example.net''] = Inr ''''"
proof -
  have m: "in_zone ''a.example.com'' ''example.com''"
    by (simp add: in_zone_def endswith_suffix [symmetric] endswith_def)
  have n: "\<not> in_zone ''a.example.com'' ''other.org''"
    by (simp add: in_zone_def endswith_suffix [symmetric] endswith_def)
  have k: "\<not> in_zone ''a.example.com'' ''example.net''"
    by (simp add: in_zone_def endswith_suffix [symmetric] endswith_def)
  have "[''other.org'', ''example.com'', ''com''] = [''other.org''] @ ''example.com'' # [''com'']"
    by simp
  with m n have
    "find_zone (JString ''a.example.com'') [''other.org'', ''example.com'', ''com'']
       = Inr ''example.com''"
    using find_zone_first_match
            [of "[''other.org'', ''example.com'', ''com'']" "''a.example.com''"]
    by (metis empty_iff empty_set set_ConsD)
  moreover from n k have
    "find_zone (JString ''a.example.com'') [''other.org'', ''example.net''] = Inr ''''"
    using find_zone_first_match [of "[''other.org'', ''example.net'']" "''a.example.com''"]
    by simp
  ultimately show ?thesis
    using m n k by blast
qed

section \<open>Lines that cannot be decoded\<close>



section \<open>Lines with a missing field\<close>

text \<open>
  C1. A decoded line that lacks a required field should be skipped with a report, and
  the run should go on. \<^verbatim>\<open>update_dns\<close> reads \<^verbatim>\<open>data['type']\<close> before its
  \<^verbatim>\<open>try\<close> block, so a forward line without \<^verbatim>\<open>type\<close> raises KeyError out of the
  function: the run stops there and the valid line after it is never written. A forward
  line without \<^verbatim>\<open>value\<close> is handled as the claim says: it is reported, nothing is
  written for it, and the next line is processed. A reverse line without \<^verbatim>\<open>name\<close> is
  skipped too, but nothing is printed for it.
\<close>

theorem missing_type_aborts_run:
  "update_dns sample_loads sample_int ticks sample_zones [fwd_no_type, fwd_ok] empty_world
     = (Some KeyError, empty_world)
   \<and> update_dns sample_loads sample_int ticks sample_zones [fwd_ok] empty_world
     = (None, \<lparr>store = [\<lparr>fqdn = JString ''foo.example.com'', zone = ''example.com'',
                          status = ''unknown'', sonar_timestamp = 100, created = 0,
                          rtype = JString ''a'', rvalue = JString ''10.0.0.1''\<rparr>],
               out = [''Domain matches! foo.example.com Zone: example.com''],
               clock = 1\<rparr>)
   \<and> update_dns sample_loads sample_int ticks sample_zones [fwd_no_value, fwd_ok] empty_world
     = (None, \<lparr>store = [\<lparr>fqdn = JString ''foo.example.com'', zone = ''example.com'',
                          status = ''unknown'', sonar_timestamp = 100, created = 0,
                          rtype = JString ''a'', rvalue = JString ''10.0.0.1''\<rparr>],
               out = [''Error with line: '' @ fwd_no_value,
                      ''Domain matches! foo.example.com Zone: example.com''],
               clock = 1\<rparr>)
   \<and> update_rdns sample_loads sample_int ticks sample_zones [rev_no_name, rev_bar] empty_world
     = (None, \<lparr>store = [\<lparr>fqdn = JString ''bar.example.com'', zone = ''example.com'',
                          status = ''unknown'', sonar_timestamp = 200, created = 0,
                          ip = JString ''10.0.0.1'', updated = 1\<rparr>],
               out = [''Domain matches! bar.example.com Zone: example.com''],
               clock = 2\<rparr>)"
  by (simp add: sample_defs run_defs)

section \<open>What one line does\<close>

text \<open>
  A line that decodes to an object holding the four fields of a forward record, with a
  string as name: the effect of one iteration of \<^verbatim>\<open>update_dns\<close>, case by case.
\<close>

lemma dns_line_valid:
  assumes "loads line = Inr (JObject kvs)"
    and "map_of kvs ''type'' = Some ty"
    and "map_of kvs ''name'' = Some (JString d)"
    and "map_of kvs ''value'' = Some v"
    and "map_of kvs ''timestamp'' = Some ts"
  shows "dns_line loads py_int now zones line w =
     (if find_zone_loop d zones \<noteq> '''' \<and> v \<noteq> JString '''' then
        (case py_int ts of
           Inl e \<Rightarrow>
             (Some e, \<lparr>store = store w,
                       out = out w @ [''Domain matches! '' @ d @ '' Zone: '' @ find_zone_loop d zones],
                       clock = clock w\<rparr>)
         | Inr n \<Rightarrow>
             (None, \<lparr>store = store w @
                        [\<lparr>fqdn = JString d, zone = find_zone_loop d zones, status = ''unknown'',
                          sonar_timestamp = n, created = now (clock w), rtype = ty, rvalue = v\<rparr>],
                     out = out w @ [''Domain matches! '' @ d @ '' Zone: '' @ find_zone_loop d zones],
                     clock = clock w + 1\<rparr>))
      else (None, w))"
  using assms
  by (simp add: dns_line_def dns_try_def dns_insert_def print_def insert_record_def Let_def
           split: sum.splits)

text \<open>The same for a reverse record: the name is the address, the value the domain.\<close>

lemma rdns_line_valid:
  assumes "loads line = Inr (JObject kvs)"
    and "map_of kvs ''name'' = Some ip_addr"
    and "map_of kvs ''value'' = Some (JString d)"
    and "map_of kvs ''timestamp'' = Some ts"
  shows "rdns_line loads py_int now zones line w =
     (if find_zone_loop d zones = '''' then (None, w)
      else if find_ip ip_addr (store w) = [] then
        (case py_int ts of
           Inl e \<Rightarrow>
             (Some e, \<lparr>store = store w,
                       out = out w @ [''Domain matches! '' @ d @ '' Zone: '' @ find_zone_loop d zones],
                       clock = clock w\<rparr>)
         | Inr n \<Rightarrow>
             (None, \<lparr>store = store w @
                        [\<lparr>fqdn = JString d, zone = find_zone_loop d zones, status = ''unknown'',
                          sonar_timestamp = n, created = now (clock w),
                          ip = ip_addr, updated = now (clock w + 1)\<rparr>],
                     out = out w @ [''Domain matches! '' @ d @ '' Zone: '' @ find_zone_loop d zones],
                     clock = clock w + 2\<rparr>))
      else
        (None, \<lparr>store = update_one ip_addr
                          (\<lambda>e. e\<lparr>fqdn := JString d, updated := now (clock w)\<rparr>) (store w),
                out = out w @ [''Domain matches! '' @ d @ '' Zone: '' @ find_zone_loop d zones],
                clock = clock w + 1\<rparr>))"
proof (cases "d = ''''")
  case True
  with assms show ?thesis
    by (simp add: rdns_line_def rdns_try_def rdns_upsert_def find_zone_loop_empty)
next
  case False
  with assms show ?thesis
    by (simp add: rdns_line_def rdns_try_def rdns_upsert_def print_def insert_doc_def Let_def
             split: sum.splits)
qed

section \<open>Forward entries lie in their zone\<close>

lemma dns_try_zone:
  "dns_try data zones = Inr (value, domain, zn) \<Longrightarrow> zn \<noteq> '''' \<Longrightarrow>
     \<exists>d. domain = JString d \<and> in_zone d zn"
  by (auto simp: dns_try_def find_zone_loop_sound split: sum.splits dest!: find_zone_string)

lemma dns_insert_store:
  "(zn \<noteq> '''' \<longrightarrow> (\<exists>d. domain = JString d \<and> in_zone d zn)) \<Longrightarrow>
     \<exists>new. store (snd (dns_insert py_int now data dtype value domain zn w)) = store w @ new
        \<and> (\<forall>e\<in>set new. fqdn_in_zone e)"
  by (auto simp: dns_insert_def print_def insert_record_def fqdn_in_zone_def Let_def
           split: sum.splits)

lemma dns_line_store:
  "\<exists>new. store (snd (dns_line loads py_int now zones line w)) = store w @ new
      \<and> (\<forall>e\<in>set new. fqdn_in_zone e)"
proof (cases "loads line")
  case (Inl e)
  then show ?thesis
    by (simp add: dns_line_def)
next
  case (Inr data)
  show ?thesis
  proof (cases "getitem data ''type''")
    case (Inl e)
    with Inr show ?thesis
      by (simp add: dns_line_def)
  next
    case ty: (Inr dtype)
    show ?thesis
    proof (cases "dns_try data zones")
      case (Inl e)
      have "\<exists>new. store (snd (dns_insert py_int now data dtype (JString '''') (JString '''') ''''
                 (print (''Error with line: '' @ line) w)))
               = store (print (''Error with line: '' @ line) w) @ new
             \<and> (\<forall>e\<in>set new. fqdn_in_zone e)"
        by (rule dns_insert_store) simp
      with Inl Inr ty show ?thesis
        by (simp add: dns_line_def print_def)
    next
      case r: (Inr triple)
      obtain v domain zn where t: "triple = (v, domain, zn)"
        by (cases triple) auto
      from r t have "zn \<noteq> '''' \<longrightarrow> (\<exists>d. domain = JString d \<and> in_zone d zn)"
        by (auto dest: dns_try_zone)
      then have "\<exists>new. store (snd (dns_insert py_int now data dtype v domain zn w)) = store w @ new
             \<and> (\<forall>e\<in>set new. fqdn_in_zone e)"
        by (rule dns_insert_store)
      with Inr ty r t show ?thesis
        by (simp add: dns_line_def)
    qed
  qed
qed

lemma update_dns_store:
  "\<exists>new. store (snd (update_dns loads py_int now zones lines w)) = store w @ new
      \<and> (\<forall>e\<in>set new. fqdn_in_zone e)"
proof (induction lines arbitrary: w)
  case Nil
  show ?case by simp
next
  case (Cons line lines)
  obtain r w1 where step: "dns_line loads py_int now zones line w = (r, w1)"
    by (cases "dns_line loads py_int now zones line w") auto
  from dns_line_store [of loads py_int now zones line w] step
  obtain new1 where n1: "store w1 = store w @ new1" "\<forall>e\<in>set new1. fqdn_in_zone e"
    by auto
  show ?case
  proof (cases r)
    case None
    from Cons.IH [of w1] obtain new2 where
      n2: "store (snd (update_dns loads py_int now zones lines w1)) = store w1 @ new2"
          "\<forall>e\<in>set new2. fqdn_in_zone e"
      by auto
    from n1 n2 have
      "store (snd (update_dns loads py_int now zones lines w1)) = store w @ (new1 @ new2)
         \<and> (\<forall>e\<in>set (new1 @ new2). fqdn_in_zone e)"
      by auto
    with step None show ?thesis
      by (auto simp del: append_assoc)
  next
    case (Some e)
    with step n1 show ?thesis
      by auto
  qed
qed

text \<open>
  C9. Whatever the file holds, a run of \<^verbatim>\<open>update_dns\<close> only adds entries to the store
  of forward entries, and the \<open>fqdn\<close> of every entry it adds is its \<open>zone\<close> or ends with a
  dot followed by its \<open>zone\<close>. So a store in which every entry has this property keeps it,
  also when the run ends with an exception. (The insertion into the store is the one given
  by the spec.)
\<close>

theorem forward_fqdn_in_zone:
  "(\<exists>new. store (snd (update_dns loads py_int now zones lines w)) = store w @ new
        \<and> (\<forall>e\<in>set new. fqdn_in_zone e))
   \<and> ((\<forall>e\<in>set (store w). fqdn_in_zone e)
        \<longrightarrow> (\<forall>e\<in>set (store (snd (update_dns loads py_int now zones lines w))). fqdn_in_zone e))"
  using update_dns_store [of loads py_int now zones lines w] by auto

theorem forward_fqdn_in_zone_witness:
  "store (snd (update_dns sample_loads sample_int ticks sample_zones [fwd_ok, garbage, fwd_no_type] empty_world))
     = [\<lparr>fqdn = JString ''foo.example.com'', zone = ''example.com'', status = ''unknown'',
         sonar_timestamp = 100, created = 0, rtype = JString ''a'',
         rvalue = JString ''10.0.0.1''\<rparr>]
   \<and> fqdn_in_zone \<lparr>fqdn = JString ''foo.example.com'', zone = ''example.com'',
         status = ''unknown'', sonar_timestamp = 100, created = 0, rtype = JString ''a'',
         rvalue = JString ''10.0.0.1''\<rparr>"
proof -
  have s: "store (snd (update_dns sample_loads sample_int ticks sample_zones
                        [fwd_ok, garbage, fwd_no_type] empty_world))
     = [\<lparr>fqdn = JString ''foo.example.com'', zone = ''example.com'', status = ''unknown'',
         sonar_timestamp = 100, created = 0, rtype = JString ''a'',
         rvalue = JString ''10.0.0.1''\<rparr>]"
    by (simp add: sample_defs run_defs)
  have e: "\<forall>e\<in>set (store (empty_world :: dns_entry world)). fqdn_in_zone e"
    by (simp add: empty_world_def)
  from e have "\<forall>e\<in>set (store (snd (update_dns sample_loads sample_int ticks sample_zones
                        [fwd_ok, garbage, fwd_no_type] empty_world))). fqdn_in_zone e"
    using forward_fqdn_in_zone
            [of sample_loads sample_int ticks sample_zones "[fwd_ok, garbage, fwd_no_type]" empty_world]
    by blast
  with s show ?thesis
    by simp
qed

section \<open>Forward records are always inserted\<close>

text \<open>
  C3. In forward mode, a decoded line with its fields present, whose \<open>name\<close> is in a
  tracked zone, whose \<open>value\<close> is not the empty string and whose time stamp converts to an
  integer adds one entry: \<open>fqdn\<close> the name, \<open>zone\<close> the zone found, \<open>type\<close> and
  \<open>value\<close> those of the record, \<open>status\<close> \<open>unknown\<close>, \<open>sonar_timestamp\<close> the
  converted time stamp, \<open>created\<close> the reading of the clock. Nothing is looked up first: the
  same line twice adds two entries, which differ at most in \<open>created\<close>. (The insertion
  into the store is the one given by the spec.)
\<close>

theorem forward_insert_unconditional:
  assumes "loads line = Inr (JObject kvs)"
    and "map_of kvs ''type'' = Some ty"
    and "map_of kvs ''name'' = Some (JString d)"
    and "map_of kvs ''value'' = Some v"
    and "map_of kvs ''timestamp'' = Some ts"
    and "find_zone (JString d) zones = Inr z"
    and "z \<noteq> ''''"
    and "v \<noteq> JString ''''"
    and "py_int ts = Inr n"
  shows "update_dns loads py_int now zones [line] w =
      (None, \<lparr>store = store w @
                 [\<lparr>fqdn = JString d, zone = z, status = ''unknown'', sonar_timestamp = n,
                   created = now (clock w), rtype = ty, rvalue = v\<rparr>],
              out = out w @ [''Domain matches! '' @ d @ '' Zone: '' @ z],
              clock = clock w + 1\<rparr>)
    \<and> update_dns loads py_int now zones [line, line] w =
      (None, \<lparr>store = store w @
                 [\<lparr>fqdn = JString d, zone = z, status = ''unknown'', sonar_timestamp = n,
                   created = now (clock w), rtype = ty, rvalue = v\<rparr>,
                  \<lparr>fqdn = JString d, zone = z, status = ''unknown'', sonar_timestamp = n,
                   created = now (clock w + 1), rtype = ty, rvalue = v\<rparr>],
              out = out w @ [''Domain matches! '' @ d @ '' Zone: '' @ z,
                             ''Domain matches! '' @ d @ '' Zone: '' @ z],
              clock = clock w + 2\<rparr>)"
proof -
  from assms(6) have z: "find_zone_loop d zones = z"
    by simp
  have step: "dns_line loads py_int now zones line u =
      (None, \<lparr>store = store u @
                 [\<lparr>fqdn = JString d, zone = z, status = ''unknown'', sonar_timestamp = n,
                   created = now (clock u), rtype = ty, rvalue = v\<rparr>],
              out = out u @ [''Domain matches! '' @ d @ '' Zone: '' @ z],
              clock = clock u + 1\<rparr>)" for u
    using assms(7-9) z by (simp add: dns_line_valid [of loads line, OF assms(1-5)])
  show ?thesis
    by (simp add: step)
qed

theorem forward_insert_unconditional_witness:
  "update_dns sample_loads sample_int ticks sample_zones [fwd_ok] empty_world =
      (None, \<lparr>store =
                 [\<lparr>fqdn = JString ''foo.example.com'', zone = ''example.com'',
                   status = ''unknown'', sonar_timestamp = 100, created = 0,
                   rtype = JString ''a'', rvalue = JString ''10.0.0.1''\<rparr>],
              out = [''Domain matches! foo.example.com Zone: example.com''],
              clock = 1\<rparr>)
   \<and> store (snd (update_dns sample_loads sample_int ticks sample_zones [fwd_ok, fwd_ok] empty_world)) =
      [\<lparr>fqdn = JString ''foo.example.com'', zone = ''example.com'',
        status = ''unknown'', sonar_timestamp = 100, created = 0,
        rtype = JString ''a'', rvalue = JString ''10.0.0.1''\<rparr>,
       \<lparr>fqdn = JString ''foo.example.com'', zone = ''example.com'',
        status = ''unknown'', sonar_timestamp = 100, created = 1,
        rtype = JString ''a'', rvalue = JString ''10.0.0.1''\<rparr>]"
proof -
  let ?kvs = "[(''type'', JString ''a''), (''name'', JString ''foo.example.com''),
               (''value'', JString ''10.0.0.1''), (''timestamp'', JInt 100)]"
  have 1: "sample_loads fwd_ok = Inr (JObject ?kvs)"
    by (simp add: sample_defs)
  have 2: "map_of ?kvs ''type'' = Some (JString ''a'')"
    and 3: "map_of ?kvs ''name'' = Some (JString ''foo.example.com'')"
    and 4: "map_of ?kvs ''value'' = Some (JString ''10.0.0.1'')"
    and 5: "map_of ?kvs ''timestamp'' = Some (JInt 100)"
    by simp_all
  have 6: "find_zone (JString ''foo.example.com'') sample_zones = Inr ''example.com''"
    by (simp add: sample_zones_def endswith_def)
  have 7: "''example.com'' \<noteq> ''''" and 8: "JString ''10.0.0.1'' \<noteq> JString ''''"
    and 9: "sample_int (JInt 100) = Inr 100"
    by (simp_all add: sample_int_def)
  have eval: "store (snd (update_dns sample_loads sample_int ticks sample_zones [fwd_ok, fwd_ok]
                           empty_world)) =
      [\<lparr>fqdn = JString ''foo.example.com'', zone = ''example.com'',
        status = ''unknown'', sonar_timestamp = 100, created = 0,
        rtype = JString ''a'', rvalue = JString ''10.0.0.1''\<rparr>,
       \<lparr>fqdn = JString ''foo.example.com'', zone = ''example.com'',
        status = ''unknown'', sonar_timestamp = 100, created = 1,
        rtype = JString ''a'', rvalue = JString ''10.0.0.1''\<rparr>]"
    by (simp add: sample_defs run_defs)
  show ?thesis
    using eval forward_insert_unconditional
            [where loads = sample_loads and py_int = sample_int and line = fwd_ok
               and now = ticks and w = empty_world,
             OF 1 2 3 4 5 6 7 8 9]
    by (simp add: empty_world_def ticks_def)
qed

section \<open>The collection of reverse entries\<close>

lemma ip_selects_self: "ip_selects q q"
  by (simp add: ip_selects_def)

lemma ip_selects_strings: "ip_selects (JString a) (JString b) \<longleftrightarrow> a = b"
  by (auto simp: ip_selects_def)

lemma find_ip_append: "find_ip q (xs @ ys) = find_ip q xs @ find_ip q ys"
  by (simp add: find_ip_def)

lemma find_ip_Cons:
  "find_ip q (d # docs) = (if ip_selects q (ip d) then d # find_ip q docs else find_ip q docs)"
  by (simp add: find_ip_def)

lemma find_ip_Nil: "find_ip q [] = []"
  by (simp add: find_ip_def)

text \<open>
  \<^verbatim>\<open>update\<close> changes the first selected document, at its place, and nothing else.
\<close>

lemma update_one_nth:
  "find_ip q docs \<noteq> [] \<Longrightarrow>
     \<exists>i<length docs. ip_selects q (ip (docs ! i)) \<and> (\<forall>j<i. \<not> ip_selects q (ip (docs ! j)))
        \<and> update_one q f docs = docs[i := f (docs ! i)]"
proof (induction docs)
  case Nil
  then show ?case
    by (simp add: find_ip_Nil)
next
  case (Cons d docs)
  show ?case
  proof (cases "ip_selects q (ip d)")
    case True
    then have "0 < length (d # docs) \<and> ip_selects q (ip ((d # docs) ! 0))
        \<and> (\<forall>j<0. \<not> ip_selects q (ip ((d # docs) ! j)))
        \<and> update_one q f (d # docs) = (d # docs)[0 := f ((d # docs) ! 0)]"
      by simp
    then show ?thesis
      by blast
  next
    case False
    with Cons.prems have "find_ip q docs \<noteq> []"
      by (simp add: find_ip_Cons)
    from Cons.IH [OF this] obtain i where
      i: "i < length docs" "ip_selects q (ip (docs ! i))"
         "\<forall>j<i. \<not> ip_selects q (ip (docs ! j))"
         "update_one q f docs = docs[i := f (docs ! i)]"
      by blast
    have "\<forall>j<Suc i. \<not> ip_selects q (ip ((d # docs) ! j))"
    proof (intro allI impI)
      fix j
      assume "j < Suc i"
      then show "\<not> ip_selects q (ip ((d # docs) ! j))"
        using False i(3) by (cases j) auto
    qed
    with False i have "Suc i < length (d # docs) \<and> ip_selects q (ip ((d # docs) ! Suc i))
        \<and> (\<forall>j<Suc i. \<not> ip_selects q (ip ((d # docs) ! j)))
        \<and> update_one q f (d # docs) = (d # docs)[Suc i := f ((d # docs) ! Suc i)]"
      by simp
    then show ?thesis
      by blast
  qed
qed

lemma map_ip_update_one:
  "(\<And>e. ip (f e) = ip e) \<Longrightarrow> map ip (update_one q f docs) = map ip docs"
  by (induction docs) simp_all

lemma find_ip_update_one:
  "(\<And>e. ip (f e) = ip e) \<Longrightarrow>
     find_ip q (update_one q f docs) = (case find_ip q docs of [] \<Rightarrow> [] | e # es \<Rightarrow> f e # es)"
  by (induction docs) (simp_all add: find_ip_Cons find_ip_Nil)

lemma length_find_ip_map: "length (find_ip q docs) = length (filter (ip_selects q) (map ip docs))"
  by (induction docs) (simp_all add: find_ip_Cons find_ip_Nil)

lemma length_find_ip_update_one:
  "(\<And>e. ip (f e) = ip e) \<Longrightarrow>
     length (find_ip q' (update_one q f docs)) = length (find_ip q' docs)"
  by (simp add: length_find_ip_map map_ip_update_one)

text \<open>What the last statements of an iteration of \<^verbatim>\<open>update_rdns\<close> leave in the store.\<close>

lemma rdns_upsert_store:
  "store (snd (rdns_upsert py_int now data domain ip_addr zn w)) = store w
   \<or> (find_ip ip_addr (store w) = []
        \<and> (\<exists>e. ip e = ip_addr \<and> store (snd (rdns_upsert py_int now data domain ip_addr zn w)) = store w @ [e]))
   \<or> (\<exists>f. (\<forall>e. ip (f e) = ip e)
        \<and> store (snd (rdns_upsert py_int now data domain ip_addr zn w)) = update_one ip_addr f (store w))"
proof -
  let ?f = "\<lambda>e :: rdns_entry. e\<lparr>fqdn := domain, updated := now (clock w)\<rparr>"
  have f: "\<forall>e. ip (?f e) = ip e"
    by simp
  show ?thesis
  proof (cases "store (snd (rdns_upsert py_int now data domain ip_addr zn w)) = store w")
    case True
    then show ?thesis by simp
  next
    case False
    show ?thesis
    proof (cases "find_ip ip_addr (store w) = []")
      case True
      with False have "\<exists>e. ip e = ip_addr
          \<and> store (snd (rdns_upsert py_int now data domain ip_addr zn w)) = store w @ [e]"
        by (auto simp: rdns_upsert_def print_def insert_doc_def Let_def
                 split: sum.splits if_splits)
      with True show ?thesis by blast
    next
      case nonempty: False
      with False have
        "store (snd (rdns_upsert py_int now data domain ip_addr zn w)) = update_one ip_addr ?f (store w)"
        by (auto simp: rdns_upsert_def print_def insert_doc_def Let_def
                 split: sum.splits if_splits)
      with f have "(\<forall>e. ip (?f e) = ip e)
          \<and> store (snd (rdns_upsert py_int now data domain ip_addr zn w)) = update_one ip_addr ?f (store w)"
        by simp
      then have "\<exists>f. (\<forall>e. ip (f e) = ip e)
          \<and> store (snd (rdns_upsert py_int now data domain ip_addr zn w)) = update_one ip_addr f (store w)"
        by (rule exI [of _ ?f])
      then show ?thesis by simp
    qed
  qed
qed

lemma rdns_upsert_count:
  assumes "length (find_ip (JString a) (store w)) \<le> 1"
  shows "length (find_ip (JString a) (store (snd (rdns_upsert py_int now data domain (JString s) zn w)))) \<le> 1"
proof -
  let ?st = "store (snd (rdns_upsert py_int now data domain (JString s) zn w))"
  from rdns_upsert_store [of py_int now data domain "JString s" zn w]
  consider "?st = store w"
    | e where "find_ip (JString s) (store w) = []" "ip e = JString s" "?st = store w @ [e]"
    | f where "\<forall>e. ip (f e) = ip e" "?st = update_one (JString s) f (store w)"
    by blast
  then show ?thesis
  proof cases
    case 1
    with assms show ?thesis by simp
  next
    case 2
    show ?thesis
    proof (cases "a = s")
      case True
      with 2 show ?thesis
        by (simp add: find_ip_append find_ip_Cons find_ip_Nil)
    next
      case False
      with 2 assms show ?thesis
        by (simp add: find_ip_append find_ip_Cons find_ip_Nil ip_selects_strings)
    qed
  next
    case 3
    with assms show ?thesis
      by (simp add: length_find_ip_update_one)
  qed
qed

lemma rdns_try_name:
  "rdns_try data zones = Inr (domain, ip_addr, zn) \<Longrightarrow> getitem data ''name'' = Inr ip_addr"
  by (auto simp: rdns_try_def split: sum.splits)

lemma rdns_line_count:
  assumes names: "\<forall>data v. loads line = Inr data \<longrightarrow> getitem data ''name'' = Inr v
                    \<longrightarrow> (\<exists>s. v = JString s)"
    and one: "length (find_ip (JString a) (store w)) \<le> 1"
  shows "length (find_ip (JString a) (store (snd (rdns_line loads py_int now zones line w)))) \<le> 1"
proof (cases "loads line")
  case (Inl e)
  with one show ?thesis
    by (simp add: rdns_line_def)
next
  case (Inr data)
  show ?thesis
  proof (cases "rdns_try data zones")
    case (Inl e)
    from rdns_upsert_count [OF one, of py_int now data "JString ''''" "''''" "''''"] one Inl Inr
    show ?thesis
      by (simp add: rdns_line_def)
  next
    case r: (Inr triple)
    obtain domain ip_addr zn where t: "triple = (domain, ip_addr, zn)"
      by (cases triple) auto
    from r t have "getitem data ''name'' = Inr ip_addr"
      by (auto dest: rdns_try_name)
    with names Inr obtain s where "ip_addr = JString s"
      by blast
    with rdns_upsert_count [OF one, of py_int now data domain s zn] Inr r t show ?thesis
      by (simp add: rdns_line_def)
  qed
qed

lemma update_rdns_count:
  assumes "\<forall>line\<in>set lines. \<forall>data v. loads line = Inr data \<longrightarrow> getitem data ''name'' = Inr v
              \<longrightarrow> (\<exists>s. v = JString s)"
    and "length (find_ip (JString a) (store w)) \<le> 1"
  shows "length (find_ip (JString a) (store (snd (update_rdns loads py_int now zones lines w)))) \<le> 1"
  using assms
proof (induction lines arbitrary: w)
  case Nil
  then show ?case by simp
next
  case (Cons line lines)
  obtain r w1 where step: "rdns_line loads py_int now zones line w = (r, w1)"
    by (cases "rdns_line loads py_int now zones line w") auto
  from Cons.prems have
    "\<forall>data v. loads line = Inr data \<longrightarrow> getitem data ''name'' = Inr v \<longrightarrow> (\<exists>s. v = JString s)"
    by simp
  from rdns_line_count [of loads line, OF this Cons.prems(2), of py_int now zones] step
  have w1: "length (find_ip (JString a) (store w1)) \<le> 1"
    by simp
  show ?case
  proof (cases r)
    case None
    from Cons.prems(1) have rest: "\<forall>line\<in>set lines. \<forall>data v. loads line = Inr data
        \<longrightarrow> getitem data ''name'' = Inr v \<longrightarrow> (\<exists>s. v = JString s)"
      by simp
    from Cons.IH [OF rest w1] step None show ?thesis
      by simp
  next
    case (Some e)
    with step w1 show ?thesis
      by simp
  qed
qed

section \<open>Time stamps that are not integers\<close>

lemma sample_int_abc: "sample_int (JString ''abc'') = Inl ValueError"
  by (simp add: sample_int_def)

text \<open>
  C2, as the claim states it, fails: a forward line whose time stamp is the string
  \<open>abc\<close> and which is in a tracked zone stops the run with a ValueError, and the valid
  line after it is not written.
\<close>

theorem bad_timestamp_counterexample:
  "update_dns sample_loads sample_int ticks sample_zones [fwd_bad_ts, fwd_ok] empty_world
     = (Some ValueError,
        \<lparr>store = [], out = [''Domain matches! foo.example.com Zone: example.com''], clock = 0\<rparr>)
   \<and> update_rdns sample_loads sample_int ticks sample_zones [rev_bad_ts, rev_baz] empty_world
     = (Some ValueError,
        \<lparr>store = [], out = [''Domain matches! bar.example.com Zone: example.com''], clock = 0\<rparr>)"
  by (simp add: sample_defs run_defs)

text \<open>
  C2, amended. The time stamp is converted only when an entry is built, and no handler
  surrounds the conversion. For a decoded line with its fields present whose time stamp
  does not convert: no new entry is ever written for it. If the line is in no tracked zone
  (or, forward, its value is the empty string) it is skipped and the run goes on. If it is
  in a tracked zone, the forward run, and the reverse run when the address has no entry
  yet, stops at the line with the error of the conversion: the store is as before the
  line and the lines after it are not processed. A reverse line in a tracked zone whose
  address has an entry updates that entry without converting the time stamp, and the run
  goes on.
\<close>

theorem bad_timestamp_line:
  assumes "py_int ts = Inl err"
    and "loads line = Inr (JObject kvs)"
    and "map_of kvs ''timestamp'' = Some ts"
  shows
    "(map_of kvs ''type'' = Some ty \<and> map_of kvs ''name'' = Some (JString d)
        \<and> map_of kvs ''value'' = Some v \<longrightarrow>
        update_dns loads py_int now zones (line # dns_f) w =
          (if find_zone_loop d zones \<noteq> '''' \<and> v \<noteq> JString '''' then
             (Some err,
              \<lparr>store = store w,
               out = out w @ [''Domain matches! '' @ d @ '' Zone: '' @ find_zone_loop d zones],
               clock = clock w\<rparr>)
           else update_dns loads py_int now zones dns_f w))
   \<and> (map_of kvs ''name'' = Some (JString a) \<and> map_of kvs ''value'' = Some (JString rd) \<longrightarrow>
        (find_zone_loop rd zones = '''' \<longrightarrow>
           update_rdns loads py_int now zones (line # read_f) rw
             = update_rdns loads py_int now zones read_f rw)
      \<and> (find_zone_loop rd zones \<noteq> '''' \<and> find_ip (JString a) (store rw) = [] \<longrightarrow>
           update_rdns loads py_int now zones (line # read_f) rw =
             (Some err,
              \<lparr>store = store rw,
               out = out rw @ [''Domain matches! '' @ rd @ '' Zone: '' @ find_zone_loop rd zones],
               clock = clock rw\<rparr>))
      \<and> (find_zone_loop rd zones \<noteq> '''' \<and> find_ip (JString a) (store rw) \<noteq> [] \<longrightarrow>
           (\<exists>i<length (store rw).
               ip_selects (JString a) (ip (store rw ! i))
             \<and> (\<forall>j<i. \<not> ip_selects (JString a) (ip (store rw ! j)))
             \<and> update_rdns loads py_int now zones (line # read_f) rw =
                 update_rdns loads py_int now zones read_f
                   \<lparr>store = (store rw)[i := (store rw ! i)\<lparr>fqdn := JString rd,
                                                             updated := now (clock rw)\<rparr>],
                    out = out rw @ [''Domain matches! '' @ rd @ '' Zone: ''
                                     @ find_zone_loop rd zones],
                    clock = clock rw + 1\<rparr>)))"
proof (intro conjI impI)
  assume f: "map_of kvs ''type'' = Some ty \<and> map_of kvs ''name'' = Some (JString d)
        \<and> map_of kvs ''value'' = Some v"
  have "dns_line loads py_int now zones line w =
     (if find_zone_loop d zones \<noteq> '''' \<and> v \<noteq> JString '''' then
        (Some err,
         \<lparr>store = store w,
          out = out w @ [''Domain matches! '' @ d @ '' Zone: '' @ find_zone_loop d zones],
          clock = clock w\<rparr>)
      else (None, w))"
    using f assms(1) by (simp add: dns_line_valid [of loads line, OF assms(2) _ _ _ assms(3)])
  then show "update_dns loads py_int now zones (line # dns_f) w =
          (if find_zone_loop d zones \<noteq> '''' \<and> v \<noteq> JString '''' then
             (Some err,
              \<lparr>store = store w,
               out = out w @ [''Domain matches! '' @ d @ '' Zone: '' @ find_zone_loop d zones],
               clock = clock w\<rparr>)
           else update_dns loads py_int now zones dns_f w)"
    by simp
next
  assume r: "map_of kvs ''name'' = Some (JString a) \<and> map_of kvs ''value'' = Some (JString rd)"
  assume "find_zone_loop rd zones = ''''"
  with r show "update_rdns loads py_int now zones (line # read_f) rw
             = update_rdns loads py_int now zones read_f rw"
    by (simp add: rdns_line_valid [of loads line, OF assms(2) _ _ assms(3)])
next
  assume r: "map_of kvs ''name'' = Some (JString a) \<and> map_of kvs ''value'' = Some (JString rd)"
  assume "find_zone_loop rd zones \<noteq> '''' \<and> find_ip (JString a) (store rw) = []"
  with r assms(1) show "update_rdns loads py_int now zones (line # read_f) rw =
             (Some err,
              \<lparr>store = store rw,
               out = out rw @ [''Domain matches! '' @ rd @ '' Zone: '' @ find_zone_loop rd zones],
               clock = clock rw\<rparr>)"
    by (simp add: rdns_line_valid [of loads line, OF assms(2) _ _ assms(3)])
next
  assume r: "map_of kvs ''name'' = Some (JString a) \<and> map_of kvs ''value'' = Some (JString rd)"
  assume old: "find_zone_loop rd zones \<noteq> '''' \<and> find_ip (JString a) (store rw) \<noteq> []"
  let ?f = "\<lambda>e :: rdns_entry. e\<lparr>fqdn := JString rd, updated := now (clock rw)\<rparr>"
  from old have "find_ip (JString a) (store rw) \<noteq> []"
    by simp
  from update_one_nth [OF this, of ?f] obtain i where
    i: "i < length (store rw)" "ip_selects (JString a) (ip (store rw ! i))"
       "\<forall>j<i. \<not> ip_selects (JString a) (ip (store rw ! j))"
       "update_one (JString a) ?f (store rw) = (store rw)[i := ?f (store rw ! i)]"
    by blast
  from r old i(4) have "update_rdns loads py_int now zones (line # read_f) rw =
                 update_rdns loads py_int now zones read_f
                   \<lparr>store = (store rw)[i := ?f (store rw ! i)],
                    out = out rw @ [''Domain matches! '' @ rd @ '' Zone: ''
                                     @ find_zone_loop rd zones],
                    clock = clock rw + 1\<rparr>"
    by (simp add: rdns_line_valid [of loads line, OF assms(2) _ _ assms(3)])
  with i(1-3)
  show "\<exists>i<length (store rw).
               ip_selects (JString a) (ip (store rw ! i))
             \<and> (\<forall>j<i. \<not> ip_selects (JString a) (ip (store rw ! j)))
             \<and> update_rdns loads py_int now zones (line # read_f) rw =
                 update_rdns loads py_int now zones read_f
                   \<lparr>store = (store rw)[i := (store rw ! i)\<lparr>fqdn := JString rd,
                                                             updated := now (clock rw)\<rparr>],
                    out = out rw @ [''Domain matches! '' @ rd @ '' Zone: ''
                                     @ find_zone_loop rd zones],
                    clock = clock rw + 1\<rparr>"
    by blast
qed

theorem bad_timestamp_line_witness:
  "sample_int (JString ''abc'') = Inl ValueError
   \<and> update_dns sample_loads sample_int ticks sample_zones [fwd_other_bad_ts, fwd_ok] empty_world
       = update_dns sample_loads sample_int ticks sample_zones [fwd_ok] empty_world
   \<and> update_dns sample_loads sample_int ticks sample_zones [fwd_bad_ts, fwd_ok] empty_world
       = (Some ValueError,
          \<lparr>store = [], out = [''Domain matches! foo.example.com Zone: example.com''],
           clock = 0\<rparr>)
   \<and> update_rdns sample_loads sample_int ticks sample_zones [rev_bad_ts, rev_baz] empty_world
       = (Some ValueError,
          \<lparr>store = [], out = [''Domain matches! bar.example.com Zone: example.com''],
           clock = 0\<rparr>)
   \<and> update_rdns sample_loads sample_int ticks sample_zones [rev_bad_ts] bar_world
       = (None,
          \<lparr>store = [\<lparr>fqdn = JString ''bar.example.com'', zone = ''example.com'',
                      status = ''unknown'', sonar_timestamp = 200, created = 7,
                      ip = JString ''10.0.0.1'', updated = 0\<rparr>],
           out = [''Domain matches! bar.example.com Zone: example.com''],
           clock = 1\<rparr>)"
proof -
  let ?f = "[(''type'', JString ''a''), (''name'', JString ''foo.example.com''),
             (''value'', JString ''10.0.0.1''), (''timestamp'', JString ''abc'')]"
  let ?r = "[(''name'', JString ''10.0.0.1''), (''value'', JString ''bar.example.com''),
             (''timestamp'', JString ''abc'')]"
  let ?o = "[(''type'', JString ''a''), (''name'', JString ''foo.notexample.com''),
             (''value'', JString ''10.0.0.1''), (''timestamp'', JString ''abc'')]"
  have lo: "sample_loads fwd_other_bad_ts = Inr (JObject ?o)"
    and lf: "sample_loads fwd_bad_ts = Inr (JObject ?f)"
    and lr: "sample_loads rev_bad_ts = Inr (JObject ?r)"
    by (simp_all add: sample_defs)
  have to: "map_of ?o ''timestamp'' = Some (JString ''abc'')"
    and tf: "map_of ?f ''timestamp'' = Some (JString ''abc'')"
    and tr: "map_of ?r ''timestamp'' = Some (JString ''abc'')"
    by simp_all
  have zo: "find_zone_loop ''foo.notexample.com'' sample_zones = ''''"
    by (simp add: sample_zones_def endswith_def)
  have z: "find_zone_loop ''foo.example.com'' sample_zones = ''example.com''"
      "find_zone_loop ''bar.example.com'' sample_zones = ''example.com''"
    by (simp_all add: sample_zones_def endswith_def)
  have other: "update_dns sample_loads sample_int ticks sample_zones [fwd_other_bad_ts, fwd_ok]
                 empty_world
       = update_dns sample_loads sample_int ticks sample_zones [fwd_ok] empty_world"
    using bad_timestamp_line
            [where loads = sample_loads and py_int = sample_int and line = fwd_other_bad_ts
               and kvs = ?o and ts = "JString ''abc''" and err = ValueError and now = ticks
               and zones = sample_zones and dns_f = "[fwd_ok]" and w = empty_world
               and ty = "JString ''a''" and d = "''foo.notexample.com''"
               and v = "JString ''10.0.0.1''",
             OF sample_int_abc lo to]
    by (simp add: zo)
  have fwd: "update_dns sample_loads sample_int ticks sample_zones [fwd_bad_ts, fwd_ok] empty_world
       = (Some ValueError,
          \<lparr>store = [], out = [''Domain matches! foo.example.com Zone: example.com''],
           clock = 0\<rparr>)"
    using bad_timestamp_line
            [where loads = sample_loads and py_int = sample_int and line = fwd_bad_ts
               and kvs = ?f and ts = "JString ''abc''" and err = ValueError and now = ticks
               and zones = sample_zones and dns_f = "[fwd_ok]" and w = empty_world
               and ty = "JString ''a''" and d = "''foo.example.com''"
               and v = "JString ''10.0.0.1''",
             OF sample_int_abc lf tf]
    by (simp add: z empty_world_def)
  have none: "find_ip (JString ''10.0.0.1'') (store (empty_world :: rdns_entry world)) = []"
    by (simp add: empty_world_def find_ip_Nil)
  have new: "update_rdns sample_loads sample_int ticks sample_zones [rev_bad_ts, rev_baz] empty_world
       = (Some ValueError,
          \<lparr>store = [], out = [''Domain matches! bar.example.com Zone: example.com''],
           clock = 0\<rparr>)"
    using bad_timestamp_line
            [where loads = sample_loads and py_int = sample_int and line = rev_bad_ts
               and kvs = ?r and ts = "JString ''abc''" and err = ValueError and now = ticks
               and zones = sample_zones and read_f = "[rev_baz]"
               and rw = "empty_world :: rdns_entry world"
               and a = "''10.0.0.1''" and rd = "''bar.example.com''",
             OF sample_int_abc lr tr] none
    by (simp add: z empty_world_def)
  have some: "find_ip (JString ''10.0.0.1'') (store bar_world) \<noteq> []"
    by (simp add: bar_world_def bar_entry_def find_ip_def ip_selects_def)
  from bad_timestamp_line
         [where loads = sample_loads and py_int = sample_int and line = rev_bad_ts
            and kvs = ?r and ts = "JString ''abc''" and err = ValueError and now = ticks
            and zones = sample_zones and read_f = "[]" and rw = bar_world
            and a = "''10.0.0.1''" and rd = "''bar.example.com''",
          OF sample_int_abc lr tr] some z
  obtain i where i: "i < length (store bar_world)"
    and res: "update_rdns sample_loads sample_int ticks sample_zones [rev_bad_ts] bar_world =
          update_rdns sample_loads sample_int ticks sample_zones []
            \<lparr>store = (store bar_world)
                       [i := (store bar_world ! i)\<lparr>fqdn := JString ''bar.example.com'',
                                                   updated := ticks (clock bar_world)\<rparr>],
             out = out bar_world @ [''Domain matches! '' @ ''bar.example.com'' @ '' Zone: ''
                                     @ ''example.com''],
             clock = clock bar_world + 1\<rparr>"
    by auto
  from i have "i = 0"
    by (simp add: bar_world_def)
  with res have rev: "update_rdns sample_loads sample_int ticks sample_zones [rev_bad_ts] bar_world
       = (None,
          \<lparr>store = [\<lparr>fqdn = JString ''bar.example.com'', zone = ''example.com'',
                      status = ''unknown'', sonar_timestamp = 200, created = 7,
                      ip = JString ''10.0.0.1'', updated = 0\<rparr>],
           out = [''Domain matches! bar.example.com Zone: example.com''],
           clock = 1\<rparr>)"
    by (simp add: bar_world_def bar_entry_def ticks_def)
  have eval: "update_dns sample_loads sample_int ticks sample_zones [fwd_bad_ts, fwd_ok] empty_world
       = (Some ValueError,
          \<lparr>store = [], out = [''Domain matches! foo.example.com Zone: example.com''],
           clock = 0\<rparr>)
   \<and> update_rdns sample_loads sample_int ticks sample_zones [rev_bad_ts, rev_baz] empty_world
       = (Some ValueError,
          \<lparr>store = [], out = [''Domain matches! bar.example.com Zone: example.com''],
           clock = 0\<rparr>)
   \<and> update_rdns sample_loads sample_int ticks sample_zones [rev_bad_ts] bar_world
       = (None,
          \<lparr>store = [\<lparr>fqdn = JString ''bar.example.com'', zone = ''example.com'',
                      status = ''unknown'', sonar_timestamp = 200, created = 7,
                      ip = JString ''10.0.0.1'', updated = 0\<rparr>],
           out = [''Domain matches! bar.example.com Zone: example.com''],
           clock = 1\<rparr>)"
    by (simp add: sample_defs run_defs)
  from other fwd new rev eval sample_int_abc show ?thesis
    by simp
qed

section \<open>Reverse records: one entry for an address\<close>

text \<open>
  A reverse line in a tracked zone, read when the store holds at most one entry for its
  address: afterwards the store holds exactly one, and its \<open>fqdn\<close> is the domain of the
  line. The time stamp has to convert only if the address is new.
\<close>

lemma rdns_line_observed:
  assumes line: "loads line = Inr (JObject kvs)"
    and name: "map_of kvs ''name'' = Some (JString a)"
    and val: "map_of kvs ''value'' = Some (JString d)"
    and stamp: "map_of kvs ''timestamp'' = Some ts"
    and zn: "find_zone_loop d zones \<noteq> ''''"
    and conv: "find_ip (JString a) (store w) = [] \<longrightarrow> (\<exists>n. py_int ts = Inr n)"
    and one: "length (find_ip (JString a) (store w)) \<le> 1"
  shows "fst (rdns_line loads py_int now zones line w) = None
     \<and> (\<exists>e. find_ip (JString a) (store (snd (rdns_line loads py_int now zones line w))) = [e]
            \<and> fqdn e = JString d)"
proof (cases "find_ip (JString a) (store w) = []")
  case True
  with conv obtain n where "py_int ts = Inr n"
    by blast
  with True zn show ?thesis
    by (simp add: rdns_line_valid [of loads line, OF line name val stamp]
          find_ip_append find_ip_Cons find_ip_Nil ip_selects_self)
next
  case False
  with one obtain e0 where e0: "find_ip (JString a) (store w) = [e0]"
    by (cases "find_ip (JString a) (store w)") auto
  have "find_ip (JString a)
          (update_one (JString a) (\<lambda>e. e\<lparr>fqdn := JString d, updated := now (clock w)\<rparr>) (store w))
        = [e0\<lparr>fqdn := JString d, updated := now (clock w)\<rparr>]"
    by (simp add: find_ip_update_one e0)
  with False zn show ?thesis
    by (simp add: rdns_line_valid [of loads line, OF line name val stamp])
qed

text \<open>
  C4, as the claim states it, fails: the script never checks that the name it reads is a
  string. The store holds one entry for 10.0.0.1; a line of a tracked zone whose name is
  the array \<open>["10.0.0.1"]\<close> selects no entry, since no \<open>ip\<close> is that array,
  and so inserts one whose \<open>ip\<close> is the array. The address 10.0.0.1 then selects both
  entries.
\<close>

theorem rdns_one_entry_per_ip_counterexample:
  "length (find_ip (JString ''10.0.0.1'') (store bar_world)) = 1
   \<and> update_rdns sample_loads sample_int ticks sample_zones [rev_array_ip] bar_world
       = (None,
          \<lparr>store = [bar_entry,
                    \<lparr>fqdn = JString ''baz.example.com'', zone = ''example.com'',
                     status = ''unknown'', sonar_timestamp = 300, created = 0,
                     ip = JArray [JString ''10.0.0.1''], updated = 1\<rparr>],
           out = [''Domain matches! baz.example.com Zone: example.com''],
           clock = 2\<rparr>)
   \<and> length (find_ip (JString ''10.0.0.1'')
         (store (snd (update_rdns sample_loads sample_int ticks sample_zones [rev_array_ip]
                        bar_world)))) = 2"
  by (simp add: sample_defs run_defs)

text \<open>
  C4, amended. In reverse mode, as long as every name that is read is a string, the store
  holds at most one entry for an address: if it does before a run, it does after it,
  whatever the lines. After two lines of a tracked zone with the same address, the store
  holds exactly one entry for the address, and its \<open>fqdn\<close> is the domain of the second
  line.
\<close>

theorem rdns_one_entry_per_ip:
  assumes "length (find_ip (JString a) (store w)) \<le> 1"
  shows
    "((\<forall>line\<in>set lines. \<forall>data v. loads line = Inr data \<longrightarrow> getitem data ''name'' = Inr v
          \<longrightarrow> (\<exists>s. v = JString s))
        \<longrightarrow> length (find_ip (JString a) (store (snd (update_rdns loads py_int now zones lines w)))) \<le> 1)
   \<and> (loads l1 = Inr (JObject kvs1) \<and> map_of kvs1 ''name'' = Some (JString a)
        \<and> map_of kvs1 ''value'' = Some (JString d1) \<and> map_of kvs1 ''timestamp'' = Some t1
        \<and> py_int t1 = Inr n1 \<and> find_zone (JString d1) zones = Inr z1 \<and> z1 \<noteq> ''''
        \<and> loads l2 = Inr (JObject kvs2) \<and> map_of kvs2 ''name'' = Some (JString a)
        \<and> map_of kvs2 ''value'' = Some (JString d2) \<and> map_of kvs2 ''timestamp'' = Some t2
        \<and> find_zone (JString d2) zones = Inr z2 \<and> z2 \<noteq> ''''
        \<longrightarrow> fst (update_rdns loads py_int now zones [l1, l2] w) = None
          \<and> (\<exists>e. find_ip (JString a) (store (snd (update_rdns loads py_int now zones [l1, l2] w))) = [e]
                 \<and> fqdn e = JString d2))"
proof (intro conjI impI)
  assume "\<forall>line\<in>set lines. \<forall>data v. loads line = Inr data \<longrightarrow> getitem data ''name'' = Inr v
          \<longrightarrow> (\<exists>s. v = JString s)"
  from update_rdns_count [OF this assms]
  show "length (find_ip (JString a) (store (snd (update_rdns loads py_int now zones lines w)))) \<le> 1" .
next
  assume h: "loads l1 = Inr (JObject kvs1) \<and> map_of kvs1 ''name'' = Some (JString a)
        \<and> map_of kvs1 ''value'' = Some (JString d1) \<and> map_of kvs1 ''timestamp'' = Some t1
        \<and> py_int t1 = Inr n1 \<and> find_zone (JString d1) zones = Inr z1 \<and> z1 \<noteq> ''''
        \<and> loads l2 = Inr (JObject kvs2) \<and> map_of kvs2 ''name'' = Some (JString a)
        \<and> map_of kvs2 ''value'' = Some (JString d2) \<and> map_of kvs2 ''timestamp'' = Some t2
        \<and> find_zone (JString d2) zones = Inr z2 \<and> z2 \<noteq> ''''"
  obtain r1 w1 where s1: "rdns_line loads py_int now zones l1 w = (r1, w1)"
    by (cases "rdns_line loads py_int now zones l1 w") auto
  from h have z1: "find_zone_loop d1 zones \<noteq> ''''" and z2: "find_zone_loop d2 zones \<noteq> ''''"
    by auto
  from h have c1: "find_ip (JString a) (store w) = [] \<longrightarrow> (\<exists>n. py_int t1 = Inr n)"
    by simp
  from h rdns_line_observed
           [where loads = loads and line = l1 and kvs = kvs1 and a = a and d = d1 and ts = t1
              and zones = zones and w = w and now = now and py_int = py_int,
            OF _ _ _ _ z1 c1 assms] s1
  obtain e1 where f1: "r1 = None" "find_ip (JString a) (store w1) = [e1]"
    by auto
  then have c2: "find_ip (JString a) (store w1) = [] \<longrightarrow> (\<exists>n. py_int t2 = Inr n)"
    and o2: "length (find_ip (JString a) (store w1)) \<le> 1"
    by simp_all
  from h rdns_line_observed
           [where loads = loads and line = l2 and kvs = kvs2 and a = a and d = d2 and ts = t2
              and zones = zones and w = w1 and now = now and py_int = py_int,
            OF _ _ _ _ z2 c2 o2]
  have "fst (rdns_line loads py_int now zones l2 w1) = None
     \<and> (\<exists>e. find_ip (JString a) (store (snd (rdns_line loads py_int now zones l2 w1))) = [e]
            \<and> fqdn e = JString d2)"
    by simp
  with s1 f1
  have res: "fst (update_rdns loads py_int now zones [l1, l2] w) = None
          \<and> (\<exists>e. find_ip (JString a) (store (snd (update_rdns loads py_int now zones [l1, l2] w))) = [e]
                 \<and> fqdn e = JString d2)"
    by (cases "rdns_line loads py_int now zones l2 w1") auto
  from res show "fst (update_rdns loads py_int now zones [l1, l2] w) = None"
    by simp
  from res
  show "\<exists>e. find_ip (JString a) (store (snd (update_rdns loads py_int now zones [l1, l2] w))) = [e]
            \<and> fqdn e = JString d2"
    by simp
qed


theorem rdns_one_entry_per_ip_witness:
  "length (find_ip (JString ''10.0.0.1'') (store (empty_world :: rdns_entry world))) \<le> 1
   \<and> length (find_ip (JString ''10.0.0.1'')
        (store (snd (update_rdns sample_loads sample_int ticks sample_zones [rev_bar, garbage, rev_baz]
                       empty_world)))) \<le> 1
   \<and> fst (update_rdns sample_loads sample_int ticks sample_zones [rev_bar, rev_baz] empty_world) = None
   \<and> map fqdn (find_ip (JString ''10.0.0.1'')
        (store (snd (update_rdns sample_loads sample_int ticks sample_zones [rev_bar, rev_baz] empty_world))))
       = [JString ''baz.example.com'']"
proof -
  let ?k1 = "[(''name'', JString ''10.0.0.1''), (''value'', JString ''bar.example.com''),
              (''timestamp'', JInt 200)]"
  let ?k2 = "[(''name'', JString ''10.0.0.1''), (''value'', JString ''baz.example.com''),
              (''timestamp'', JInt 300)]"
  have one: "length (find_ip (JString ''10.0.0.1'') (store (empty_world :: rdns_entry world))) \<le> 1"
    by (simp add: empty_world_def find_ip_Nil)
  have names: "\<forall>line\<in>set [rev_bar, garbage, rev_baz]. \<forall>data v. sample_loads line = Inr data
      \<longrightarrow> getitem data ''name'' = Inr v \<longrightarrow> (\<exists>s. v = JString s)"
    by (auto simp: sample_defs)
  have lines: "sample_loads rev_bar = Inr (JObject ?k1)" "sample_loads rev_baz = Inr (JObject ?k2)"
    by (simp_all add: sample_defs)
  have zones: "find_zone (JString ''bar.example.com'') sample_zones = Inr ''example.com''"
      "find_zone (JString ''baz.example.com'') sample_zones = Inr ''example.com''"
    by (simp_all add: sample_zones_def endswith_def)
  note inst = rdns_one_entry_per_ip
      [where a = "''10.0.0.1''" and w = "empty_world :: rdns_entry world"
         and loads = sample_loads and py_int = sample_int and now = ticks
         and zones = sample_zones and lines = "[rev_bar, garbage, rev_baz]"
         and ?l1.0 = rev_bar and ?kvs1.0 = ?k1 and ?d1.0 = "''bar.example.com''"
         and ?t1.0 = "JInt 200" and ?n1.0 = 200 and ?z1.0 = "''example.com''"
         and ?l2.0 = rev_baz and ?kvs2.0 = ?k2 and ?d2.0 = "''baz.example.com''"
         and ?t2.0 = "JInt 300" and ?z2.0 = "''example.com''",
       OF one]
  from inst names have count:
    "length (find_ip (JString ''10.0.0.1'')
        (store (snd (update_rdns sample_loads sample_int ticks sample_zones [rev_bar, garbage, rev_baz]
                       empty_world)))) \<le> 1"
    by blast
  have conv: "sample_int (JInt 200) = Inr 200"
    by (simp add: sample_int_def)
  from inst lines zones conv have
    "fst (update_rdns sample_loads sample_int ticks sample_zones [rev_bar, rev_baz] empty_world) = None
     \<and> (\<exists>e. find_ip (JString ''10.0.0.1'')
              (store (snd (update_rdns sample_loads sample_int ticks sample_zones [rev_bar, rev_baz]
                             empty_world))) = [e]
           \<and> fqdn e = JString ''baz.example.com'')"
    by simp
  moreover have "map fqdn (find_ip (JString ''10.0.0.1'')
        (store (snd (update_rdns sample_loads sample_int ticks sample_zones [rev_bar, rev_baz]
                       empty_world))))
       = [JString ''baz.example.com'']"
    by (simp add: sample_defs run_defs)
  ultimately show ?thesis
    using one count by auto
qed

section \<open>Reverse records: what an update leaves alone\<close>

text \<open>
  C5. In reverse mode, a line of a tracked zone whose address has an entry changes one
  place of the store, that of the first entry selected by the address: there the \<open>fqdn\<close>
  becomes the domain of the line and \<open>updated\<close> the reading of the clock, while \<open>zone\<close>,
  \<open>status\<close>, \<open>created\<close>, \<open>sonar_timestamp\<close> and \<open>ip\<close> stay. No entry is added
  or removed and every other entry is as it was. The time stamp of the line is not
  converted.
\<close>

theorem rdns_update_frame:
  assumes "loads line = Inr (JObject kvs)"
    and "map_of kvs ''name'' = Some (JString a)"
    and "map_of kvs ''value'' = Some (JString d)"
    and "map_of kvs ''timestamp'' = Some ts"
    and "find_zone (JString d) zones = Inr z"
    and "z \<noteq> ''''"
    and "find_ip (JString a) (store w) \<noteq> []"
  shows "\<exists>i<length (store w).
       ip_selects (JString a) (ip (store w ! i))
     \<and> (\<forall>j<i. \<not> ip_selects (JString a) (ip (store w ! j)))
     \<and> rdns_line loads py_int now zones line w =
         (None, \<lparr>store = (store w)[i := (store w ! i)\<lparr>fqdn := JString d, updated := now (clock w)\<rparr>],
                 out = out w @ [''Domain matches! '' @ d @ '' Zone: '' @ z],
                 clock = clock w + 1\<rparr>)
     \<and> length (store (snd (rdns_line loads py_int now zones line w))) = length (store w)
     \<and> fqdn (store (snd (rdns_line loads py_int now zones line w)) ! i) = JString d
     \<and> updated (store (snd (rdns_line loads py_int now zones line w)) ! i) = now (clock w)
     \<and> zone (store (snd (rdns_line loads py_int now zones line w)) ! i) = zone (store w ! i)
     \<and> status (store (snd (rdns_line loads py_int now zones line w)) ! i) = status (store w ! i)
     \<and> created (store (snd (rdns_line loads py_int now zones line w)) ! i) = created (store w ! i)
     \<and> sonar_timestamp (store (snd (rdns_line loads py_int now zones line w)) ! i)
         = sonar_timestamp (store w ! i)
     \<and> ip (store (snd (rdns_line loads py_int now zones line w)) ! i) = ip (store w ! i)
     \<and> (\<forall>j<length (store w). j \<noteq> i \<longrightarrow>
           store (snd (rdns_line loads py_int now zones line w)) ! j = store w ! j)"
proof -
  let ?f = "\<lambda>e :: rdns_entry. e\<lparr>fqdn := JString d, updated := now (clock w)\<rparr>"
  from assms(5) have z: "find_zone_loop d zones = z"
    by simp
  from update_one_nth [OF assms(7), of ?f] obtain i where
    i: "i < length (store w)" "ip_selects (JString a) (ip (store w ! i))"
       "\<forall>j<i. \<not> ip_selects (JString a) (ip (store w ! j))"
       "update_one (JString a) ?f (store w) = (store w)[i := ?f (store w ! i)]"
    by blast
  have line: "rdns_line loads py_int now zones line w =
         (None, \<lparr>store = (store w)[i := ?f (store w ! i)],
                 out = out w @ [''Domain matches! '' @ d @ '' Zone: '' @ z],
                 clock = clock w + 1\<rparr>)"
    using assms(6,7) z i(4)
    by (simp add: rdns_line_valid [of loads line, OF assms(1-4)])
  from i(1) have rest: "length (store (snd (rdns_line loads py_int now zones line w))) = length (store w)
     \<and> fqdn (store (snd (rdns_line loads py_int now zones line w)) ! i) = JString d
     \<and> updated (store (snd (rdns_line loads py_int now zones line w)) ! i) = now (clock w)
     \<and> zone (store (snd (rdns_line loads py_int now zones line w)) ! i) = zone (store w ! i)
     \<and> status (store (snd (rdns_line loads py_int now zones line w)) ! i) = status (store w ! i)
     \<and> created (store (snd (rdns_line loads py_int now zones line w)) ! i) = created (store w ! i)
     \<and> sonar_timestamp (store (snd (rdns_line loads py_int now zones line w)) ! i)
         = sonar_timestamp (store w ! i)
     \<and> ip (store (snd (rdns_line loads py_int now zones line w)) ! i) = ip (store w ! i)
     \<and> (\<forall>j<length (store w). j \<noteq> i \<longrightarrow>
           store (snd (rdns_line loads py_int now zones line w)) ! j = store w ! j)"
    by (simp add: line)
  from i(1-3) line rest show ?thesis
    by blast
qed

theorem rdns_update_frame_witness:
  "find_ip (JString ''10.0.0.1'') (store bar_world) \<noteq> []
   \<and> fst (rdns_line sample_loads sample_int ticks sample_zones rev_baz bar_world) = None
   \<and> store (snd (rdns_line sample_loads sample_int ticks sample_zones rev_baz bar_world))
       = [\<lparr>fqdn = JString ''baz.example.com'', zone = ''example.com'', status = ''unknown'',
           sonar_timestamp = 200, created = 7, ip = JString ''10.0.0.1'', updated = 0\<rparr>]"
proof -
  let ?k = "[(''name'', JString ''10.0.0.1''), (''value'', JString ''baz.example.com''),
             (''timestamp'', JInt 300)]"
  have l: "sample_loads rev_baz = Inr (JObject ?k)"
    by (simp add: sample_defs)
  have n: "map_of ?k ''name'' = Some (JString ''10.0.0.1'')"
    and v: "map_of ?k ''value'' = Some (JString ''baz.example.com'')"
    and t: "map_of ?k ''timestamp'' = Some (JInt 300)"
    by simp_all
  have z: "find_zone (JString ''baz.example.com'') sample_zones = Inr ''example.com''"
    by (simp add: sample_zones_def endswith_def)
  have nz: "''example.com'' \<noteq> ''''"
    by simp
  have f: "find_ip (JString ''10.0.0.1'') (store bar_world) \<noteq> []"
    by (simp add: bar_world_def bar_entry_def find_ip_def ip_selects_def)
  from rdns_update_frame
         [where loads = sample_loads and py_int = sample_int and line = rev_baz and now = ticks and w = bar_world,
          OF l n v t z nz f]
  obtain i where "i < length (store bar_world)"
    and "rdns_line sample_loads sample_int ticks sample_zones rev_baz bar_world =
         (None, \<lparr>store = (store bar_world)
                    [i := (store bar_world ! i)\<lparr>fqdn := JString ''baz.example.com'',
                                                updated := ticks (clock bar_world)\<rparr>],
                 out = out bar_world @ [''Domain matches! '' @ ''baz.example.com'' @ '' Zone: ''
                                         @ ''example.com''],
                 clock = clock bar_world + 1\<rparr>)"
    by blast
  then have "fst (rdns_line sample_loads sample_int ticks sample_zones rev_baz bar_world) = None
     \<and> store (snd (rdns_line sample_loads sample_int ticks sample_zones rev_baz bar_world))
       = [\<lparr>fqdn = JString ''baz.example.com'', zone = ''example.com'', status = ''unknown'',
           sonar_timestamp = 200, created = 7, ip = JString ''10.0.0.1'', updated = 0\<rparr>]"
    by (simp add: bar_world_def bar_entry_def ticks_def)
  moreover have "store (snd (rdns_line sample_loads sample_int ticks sample_zones rev_baz bar_world))
       = [\<lparr>fqdn = JString ''baz.example.com'', zone = ''example.com'', status = ''unknown'',
           sonar_timestamp = 200, created = 7, ip = JString ''10.0.0.1'', updated = 0\<rparr>]"
    by (simp add: sample_defs run_defs)
  ultimately show ?thesis
    using f by simp
qed

section \<open>Reverse records: the first observation of an address\<close>

text \<open>
  C8, as the claim states it, fails: \<^verbatim>\<open>created\<close> and \<^verbatim>\<open>updated\<close> are set by two
  calls of \<^verbatim>\<open>datetime.now()\<close>, one after the other. With a clock that advances
  between the two, the entry inserted for a new address has \<open>created = 0\<close> and
  \<open>updated = 1\<close>.
\<close>

theorem rdns_first_insert_counterexample:
  "update_rdns sample_loads sample_int ticks sample_zones [rev_bar] empty_world
     = (None,
        \<lparr>store = [\<lparr>fqdn = JString ''bar.example.com'', zone = ''example.com'',
                    status = ''unknown'', sonar_timestamp = 200, created = 0,
                    ip = JString ''10.0.0.1'', updated = 1\<rparr>],
         out = [''Domain matches! bar.example.com Zone: example.com''],
         clock = 2\<rparr>)"
  by (simp add: sample_defs run_defs)

text \<open>
  C8, amended. In reverse mode, a line of a tracked zone whose address has no entry and
  whose time stamp converts adds one entry, with \<open>status\<close> \<open>unknown\<close>,
  \<open>sonar_timestamp\<close> the converted time stamp, \<open>created\<close> the next reading of the clock
  and \<open>updated\<close> the reading after that one. The two are equal exactly when the clock
  gives the same reading twice.
\<close>

theorem rdns_first_insert:
  assumes "loads line = Inr (JObject kvs)"
    and "map_of kvs ''name'' = Some (JString a)"
    and "map_of kvs ''value'' = Some (JString d)"
    and "map_of kvs ''timestamp'' = Some ts"
    and "py_int ts = Inr n"
    and "find_zone (JString d) zones = Inr z"
    and "z \<noteq> ''''"
    and "find_ip (JString a) (store w) = []"
  shows "rdns_line loads py_int now zones line w =
      (None, \<lparr>store = store w @
                 [\<lparr>fqdn = JString d, zone = z, status = ''unknown'', sonar_timestamp = n,
                   created = now (clock w), ip = JString a, updated = now (clock w + 1)\<rparr>],
              out = out w @ [''Domain matches! '' @ d @ '' Zone: '' @ z],
              clock = clock w + 2\<rparr>)
    \<and> (created (last (store (snd (rdns_line loads py_int now zones line w))))
          = updated (last (store (snd (rdns_line loads py_int now zones line w))))
        \<longleftrightarrow> now (clock w) = now (clock w + 1))"
proof -
  from assms(6) have "find_zone_loop d zones = z"
    by simp
  with assms(5,7,8) have "rdns_line loads py_int now zones line w =
      (None, \<lparr>store = store w @
                 [\<lparr>fqdn = JString d, zone = z, status = ''unknown'', sonar_timestamp = n,
                   created = now (clock w), ip = JString a, updated = now (clock w + 1)\<rparr>],
              out = out w @ [''Domain matches! '' @ d @ '' Zone: '' @ z],
              clock = clock w + 2\<rparr>)"
    by (simp add: rdns_line_valid [of loads line, OF assms(1-4)])
  then show ?thesis
    by simp
qed

theorem rdns_first_insert_witness:
  "find_ip (JString ''10.0.0.1'') (store (empty_world :: rdns_entry world)) = []
   \<and> rdns_line sample_loads sample_int (\<lambda>i. 5) sample_zones rev_bar empty_world =
      (None, \<lparr>store = [\<lparr>fqdn = JString ''bar.example.com'', zone = ''example.com'',
                         status = ''unknown'', sonar_timestamp = 200, created = 5,
                         ip = JString ''10.0.0.1'', updated = 5\<rparr>],
              out = [''Domain matches! bar.example.com Zone: example.com''],
              clock = 2\<rparr>)"
proof -
  let ?k = "[(''name'', JString ''10.0.0.1''), (''value'', JString ''bar.example.com''),
             (''timestamp'', JInt 200)]"
  have l: "sample_loads rev_bar = Inr (JObject ?k)"
    by (simp add: sample_defs)
  have n: "map_of ?k ''name'' = Some (JString ''10.0.0.1'')"
    and v: "map_of ?k ''value'' = Some (JString ''bar.example.com'')"
    and t: "map_of ?k ''timestamp'' = Some (JInt 200)"
    by simp_all
  have c: "sample_int (JInt 200) = Inr 200"
    by (simp add: sample_int_def)
  have z: "find_zone (JString ''bar.example.com'') sample_zones = Inr ''example.com''"
    by (simp add: sample_zones_def endswith_def)
  have nz: "''example.com'' \<noteq> ''''"
    by simp
  have f: "find_ip (JString ''10.0.0.1'') (store (empty_world :: rdns_entry world)) = []"
    by (simp add: empty_world_def find_ip_Nil)
  from rdns_first_insert
         [where loads = sample_loads and py_int = sample_int and line = rev_bar and now = "\<lambda>i. 5" and w = empty_world,
          OF l n v t c z nz f]
  have "rdns_line sample_loads sample_int (\<lambda>i. 5) sample_zones rev_bar empty_world =
      (None, \<lparr>store = [\<lparr>fqdn = JString ''bar.example.com'', zone = ''example.com'',
                         status = ''unknown'', sonar_timestamp = 200, created = 5,
                         ip = JString ''10.0.0.1'', updated = 5\<rparr>],
              out = [''Domain matches! bar.example.com Zone: example.com''],
              clock = 2\<rparr>)"
    by (simp add: empty_world_def)
  moreover have "rdns_line sample_loads sample_int (\<lambda>i. 5) sample_zones rev_bar empty_world =
      (None, \<lparr>store = [\<lparr>fqdn = JString ''bar.example.com'', zone = ''example.com'',
                         status = ''unknown'', sonar_timestamp = 200, created = 5,
                         ip = JString ''10.0.0.1'', updated = 5\<rparr>],
              out = [''Domain matches! bar.example.com Zone: example.com''],
              clock = 2\<rparr>)"
    by (simp add: sample_defs run_defs)
  ultimately show ?thesis
    using f by simp
qed

section \<open>Reverse records: an empty address\<close>

text \<open>
  C10. \<^verbatim>\<open>update_rdns\<close> never looks at the address it read. A line whose \<open>name\<close> is
  the empty string and whose \<open>value\<close> is in a tracked zone writes to the store under the
  address \<open>""\<close>. When the store selects no entry for the empty address (and the time
  stamp converts), an entry whose \<open>ip\<close> is the empty string is added at the end. When it
  selects one, the first entry selected, whose \<open>ip\<close> is the empty string if it is a
  string at all, gets the domain of the line as \<open>fqdn\<close> and the reading of the clock as
  \<open>updated\<close>, at its place in the store.
\<close>

theorem rdns_empty_ip:
  assumes "loads line = Inr (JObject kvs)"
    and "map_of kvs ''name'' = Some (JString '''')"
    and "map_of kvs ''value'' = Some (JString d)"
    and "map_of kvs ''timestamp'' = Some ts"
    and "find_zone (JString d) zones = Inr z"
    and "z \<noteq> ''''"
  shows
    "(find_ip (JString '''') (store w) = [] \<and> py_int ts = Inr n \<longrightarrow>
        rdns_line loads py_int now zones line w =
          (None, \<lparr>store = store w @
                     [\<lparr>fqdn = JString d, zone = z, status = ''unknown'', sonar_timestamp = n,
                       created = now (clock w), ip = JString '''', updated = now (clock w + 1)\<rparr>],
                  out = out w @ [''Domain matches! '' @ d @ '' Zone: '' @ z],
                  clock = clock w + 2\<rparr>))
   \<and> (find_ip (JString '''') (store w) \<noteq> [] \<longrightarrow>
        (\<exists>i<length (store w).
            ip_selects (JString '''') (ip (store w ! i))
          \<and> (\<forall>j<i. \<not> ip_selects (JString '''') (ip (store w ! j)))
          \<and> ((\<exists>s. ip (store w ! i) = JString s) \<longrightarrow> ip (store w ! i) = JString '''')
          \<and> rdns_line loads py_int now zones line w =
              (None, \<lparr>store = (store w)[i := (store w ! i)\<lparr>fqdn := JString d,
                                                            updated := now (clock w)\<rparr>],
                      out = out w @ [''Domain matches! '' @ d @ '' Zone: '' @ z],
                      clock = clock w + 1\<rparr>)))"
proof (intro conjI impI)
  assume new: "find_ip (JString '''') (store w) = [] \<and> py_int ts = Inr n"
  from assms(5) have "find_zone_loop d zones = z"
    by simp
  with new assms(6)
  show "rdns_line loads py_int now zones line w =
          (None, \<lparr>store = store w @
                     [\<lparr>fqdn = JString d, zone = z, status = ''unknown'', sonar_timestamp = n,
                       created = now (clock w), ip = JString '''', updated = now (clock w + 1)\<rparr>],
                  out = out w @ [''Domain matches! '' @ d @ '' Zone: '' @ z],
                  clock = clock w + 2\<rparr>)"
    by (simp add: rdns_line_valid [of loads line, OF assms(1-4)])
next
  assume old: "find_ip (JString '''') (store w) \<noteq> []"
  let ?f = "\<lambda>e :: rdns_entry. e\<lparr>fqdn := JString d, updated := now (clock w)\<rparr>"
  from assms(5) have z: "find_zone_loop d zones = z"
    by simp
  from update_one_nth [OF old, of ?f] obtain i where
    i: "i < length (store w)" "ip_selects (JString '''') (ip (store w ! i))"
       "\<forall>j<i. \<not> ip_selects (JString '''') (ip (store w ! j))"
       "update_one (JString '''') ?f (store w) = (store w)[i := ?f (store w ! i)]"
    by blast
  from i(2) have str: "(\<exists>s. ip (store w ! i) = JString s) \<longrightarrow> ip (store w ! i) = JString ''''"
    by (auto simp: ip_selects_strings)
  have "rdns_line loads py_int now zones line w =
              (None, \<lparr>store = (store w)[i := ?f (store w ! i)],
                      out = out w @ [''Domain matches! '' @ d @ '' Zone: '' @ z],
                      clock = clock w + 1\<rparr>)"
    using assms(6) old z i(4)
    by (simp add: rdns_line_valid [of loads line, OF assms(1-4)])
  with i(1-3) str
  show "\<exists>i<length (store w).
            ip_selects (JString '''') (ip (store w ! i))
          \<and> (\<forall>j<i. \<not> ip_selects (JString '''') (ip (store w ! j)))
          \<and> ((\<exists>s. ip (store w ! i) = JString s) \<longrightarrow> ip (store w ! i) = JString '''')
          \<and> rdns_line loads py_int now zones line w =
              (None, \<lparr>store = (store w)[i := (store w ! i)\<lparr>fqdn := JString d,
                                                            updated := now (clock w)\<rparr>],
                      out = out w @ [''Domain matches! '' @ d @ '' Zone: '' @ z],
                      clock = clock w + 1\<rparr>)"
    by blast
qed

theorem rdns_empty_ip_witness:
  "find_ip (JString '''') (store bar_world) = []
   \<and> rdns_line sample_loads sample_int ticks sample_zones rev_empty_ip bar_world =
      (None, \<lparr>store = [bar_entry,
                        \<lparr>fqdn = JString ''bar.example.com'', zone = ''example.com'',
                         status = ''unknown'', sonar_timestamp = 200, created = 0,
                         ip = JString '''', updated = 1\<rparr>],
              out = [''Domain matches! bar.example.com Zone: example.com''],
              clock = 2\<rparr>)
   \<and> find_ip (JString '''') (store anon_world) = [anon_entry]
   \<and> rdns_line sample_loads sample_int ticks sample_zones rev_empty_ip anon_world =
      (None, \<lparr>store = [bar_entry,
                        \<lparr>fqdn = JString ''bar.example.com'', zone = ''example.com'',
                         status = ''unknown'', sonar_timestamp = 50, created = 3,
                         ip = JString '''', updated = 0\<rparr>],
              out = [''Domain matches! bar.example.com Zone: example.com''],
              clock = 1\<rparr>)"
proof -
  let ?k = "[(''name'', JString ''''), (''value'', JString ''bar.example.com''),
             (''timestamp'', JInt 200)]"
  have l: "sample_loads rev_empty_ip = Inr (JObject ?k)"
    by (simp add: sample_defs)
  have n: "map_of ?k ''name'' = Some (JString '''')"
    and v: "map_of ?k ''value'' = Some (JString ''bar.example.com'')"
    and t: "map_of ?k ''timestamp'' = Some (JInt 200)"
    by simp_all
  have c: "sample_int (JInt 200) = Inr 200"
    by (simp add: sample_int_def)
  have z: "find_zone (JString ''bar.example.com'') sample_zones = Inr ''example.com''"
    by (simp add: sample_zones_def endswith_def)
  have nz: "''example.com'' \<noteq> ''''"
    by simp
  have none: "find_ip (JString '''') (store bar_world) = []"
    by (simp add: bar_world_def bar_entry_def find_ip_def ip_selects_def)
  have some: "find_ip (JString '''') (store anon_world) = [anon_entry]"
    by (simp add: anon_world_def anon_entry_def bar_entry_def find_ip_def ip_selects_def)
  have ins: "rdns_line sample_loads sample_int ticks sample_zones rev_empty_ip bar_world =
      (None, \<lparr>store = [bar_entry,
                        \<lparr>fqdn = JString ''bar.example.com'', zone = ''example.com'',
                         status = ''unknown'', sonar_timestamp = 200, created = 0,
                         ip = JString '''', updated = 1\<rparr>],
              out = [''Domain matches! bar.example.com Zone: example.com''],
              clock = 2\<rparr>)"
    using rdns_empty_ip
            [where loads = sample_loads and py_int = sample_int and line = rev_empty_ip
               and now = ticks and w = bar_world and n = 200,
             OF l n v t z nz] none c
    by (simp add: bar_world_def ticks_def)
  from rdns_empty_ip
         [where loads = sample_loads and py_int = sample_int and line = rev_empty_ip
            and now = ticks and w = anon_world and n = 200,
          OF l n v t z nz] some
  obtain i where i: "i < length (store anon_world)"
    and sel: "ip_selects (JString '''') (ip (store anon_world ! i))"
    and res: "rdns_line sample_loads sample_int ticks sample_zones rev_empty_ip anon_world =
         (None, \<lparr>store = (store anon_world)
                    [i := (store anon_world ! i)\<lparr>fqdn := JString ''bar.example.com'',
                                                 updated := ticks (clock anon_world)\<rparr>],
                 out = out anon_world @ [''Domain matches! '' @ ''bar.example.com'' @ '' Zone: ''
                                          @ ''example.com''],
                 clock = clock anon_world + 1\<rparr>)"
    by auto
  from i have "i = 0 \<or> i = 1"
    by (auto simp: anon_world_def)
  with sel have "i = 1"
    by (auto simp: anon_world_def bar_entry_def ip_selects_def)
  with res have upd: "rdns_line sample_loads sample_int ticks sample_zones rev_empty_ip anon_world =
      (None, \<lparr>store = [bar_entry,
                        \<lparr>fqdn = JString ''bar.example.com'', zone = ''example.com'',
                         status = ''unknown'', sonar_timestamp = 50, created = 3,
                         ip = JString '''', updated = 0\<rparr>],
              out = [''Domain matches! bar.example.com Zone: example.com''],
              clock = 1\<rparr>)"
    by (simp add: anon_world_def anon_entry_def ticks_def)
  have eval: "rdns_line sample_loads sample_int ticks sample_zones rev_empty_ip bar_world =
      (None, \<lparr>store = [bar_entry,
                        \<lparr>fqdn = JString ''bar.example.com'', zone = ''example.com'',
                         status = ''unknown'', sonar_timestamp = 200, created = 0,
                         ip = JString '''', updated = 1\<rparr>],
              out = [''Domain matches! bar.example.com Zone: example.com''],
              clock = 2\<rparr>)
   \<and> rdns_line sample_loads sample_int ticks sample_zones rev_empty_ip anon_world =
      (None, \<lparr>store = [bar_entry,
                        \<lparr>fqdn = JString ''bar.example.com'', zone = ''example.com'',
                         status = ''unknown'', sonar_timestamp = 50, created = 3,
                         ip = JString '''', updated = 0\<rparr>],
              out = [''Domain matches! bar.example.com Zone: example.com''],
              clock = 1\<rparr>)"
    by (simp add: sample_defs run_defs anon_world_def anon_entry_def)
  from none some ins upd eval show ?thesis
    by simp
qed

end
